theory Spec2Isabelle
  imports Main
begin

section \<open>JavaScript values used by the delivery-estimate service\<close>

text \<open>
  Exceptions are values. Every \<open>throw\<close> of the source and every runtime error the
  modelled expressions can raise is one of these, carrying its \<open>message\<close>.
\<close>

datatype exn = Error string | TypeError string | RangeError string | SyntaxError string

fun message :: "exn \<Rightarrow> string" where
  "message (Error m) = m"
| "message (TypeError m) = m"
| "message (RangeError m) = m"
| "message (SyntaxError m) = m"

text \<open>
  An optional string (\<open>None\<close> is \<open>undefined\<close>/\<open>null\<close>) is truthy when it is present
  and not empty.
\<close>

fun truthy :: "string option \<Rightarrow> bool" where
  "truthy None = False"
| "truthy (Some s) = (s \<noteq> [])"

text \<open>
  A number that may be \<open>NaN\<close> is an \<open>int option\<close>; every comparison with \<open>NaN\<close> is
  false. Numbers are exact integers: the code's numbers are doubles, whose counters
  stop increasing at \<open>2^53\<close>, so a loop that counts up to more than that (or to
  \<open>Infinity\<close>) does not end in the code, which this model does not show. A string is
  a list of code units below 256.
\<close>

fun num_lt :: "int option \<Rightarrow> int \<Rightarrow> bool" where
  "num_lt None b = False"
| "num_lt (Some a) b = (a < b)"

definition isDigit :: "char \<Rightarrow> bool" where
  "isDigit c = (48 \<le> (of_char c :: nat) \<and> (of_char c :: nat) \<le> 57)"

definition digitVal :: "char \<Rightarrow> int" where
  "digitVal c = int (of_char c) - 48"

text \<open>
  The white space \<open>parseInt\<close> skips, among the code units below 256: tab, line feed,
  vertical tab, form feed, carriage return, space and the no-break space \<open>U+00A0\<close>.
\<close>

definition isSpace :: "char \<Rightarrow> bool" where
  "isSpace c = ((of_char c :: nat) \<in> {9, 10, 11, 12, 13, 32, 160})"

definition decimal :: "string \<Rightarrow> int" where
  "decimal ds = foldl (\<lambda>a c. 10 * a + digitVal c) 0 ds"

text \<open>
  \<open>parseInt(s, 10)\<close>: leading white space is skipped, one sign is read, then the
  longest run of decimal digits; no digit gives \<open>NaN\<close>.
\<close>

definition parseInt :: "string \<Rightarrow> int option" where
  "parseInt s =
     (let s1 = dropWhile isSpace s;
          neg = (s1 \<noteq> [] \<and> hd s1 = CHR ''-'');
          s2 = (if s1 \<noteq> [] \<and> (hd s1 = CHR ''-'' \<or> hd s1 = CHR ''+'') then tl s1 else s1);
          ds = takeWhile isDigit s2
      in if ds = [] then None
         else Some (if neg then - decimal ds else decimal ds))"

text \<open>
  A reading of numeric text that agrees with \<open>Number(s)\<close> on every optionally signed
  run of decimal digits, with surrounding white space, and on the empty string. It
  is the number conversion of the concrete runtime used in the examples only; the
  model itself takes \<open>Number\<close> from the runtime.
\<close>

definition decimalNumber :: "string \<Rightarrow> int option" where
  "decimalNumber s =
     (let s1 = rev (dropWhile isSpace (rev (dropWhile isSpace s)));
          neg = (s1 \<noteq> [] \<and> hd s1 = CHR ''-'');
          s2 = (if s1 \<noteq> [] \<and> (hd s1 = CHR ''-'' \<or> hd s1 = CHR ''+'') then tl s1 else s1)
      in if s1 = [] then Some 0
         else if s2 \<noteq> [] \<and> list_all isDigit s2
         then Some (if neg then - decimal s2 else decimal s2)
         else None)"

text \<open>\<open>s.split(':')\<close>: the pieces between the colons, always at least one piece.\<close>

fun split_colon :: "string \<Rightarrow> string list" where
  "split_colon [] = [[]]"
| "split_colon (c # cs) =
     (if c = CHR '':'' then [] # split_colon cs
      else (case split_colon cs of
              [] \<Rightarrow> [[c]]
            | p # ps \<Rightarrow> (c # p) # ps))"

text \<open>Decimal rendering of a number inside a template string.\<close>

fun digitsOf :: "nat \<Rightarrow> string" where
  "digitsOf n = (if n < 10 then [char_of (48 + n)]
                 else digitsOf (n div 10) @ [char_of (48 + n mod 10)])"

definition showInt :: "int \<Rightarrow> string" where
  "showInt i = (if i < 0 then CHR ''-'' # digitsOf (nat (- i)) else digitsOf (nat i))"

subsection \<open>Dates\<close>

text \<open>
  A \<open>Date\<close> holds a time value in milliseconds, or is an Invalid Date (time value
  \<open>NaN\<close>). The local time zone is taken to be UTC without daylight saving:
  \<open>Date t\<close> is \<open>t\<close> milliseconds after 1970-01-01 00:00, a Thursday. A time value
  lies within 8.64e15 milliseconds of that instant; whatever a setter computes
  beyond it is an Invalid Date (\<open>timeClip\<close>). The clock and the runtime's date
  parser give time values within the range.
\<close>

datatype jsDate = Date int | InvalidDate

definition msPerDay :: int where
  "msPerDay = 86400000"

definition maxTime :: int where
  "maxTime = 8640000000000000"

definition timeClip :: "int \<Rightarrow> jsDate" where
  "timeClip t = (if - maxTime \<le> t \<and> t \<le> maxTime then Date t else InvalidDate)"

definition weekDay :: "int \<Rightarrow> int" where
  "weekDay t = (t div msPerDay + 4) mod 7"

fun getDay :: "jsDate \<Rightarrow> int option" where
  "getDay (Date t) = Some (weekDay t)"
| "getDay InvalidDate = None"

text \<open>
  \<open>d.setDate(d.getDate() + 1)\<close>: the same local time on the next calendar day, or an
  Invalid Date when that lies beyond the range.
\<close>

fun setDateNext :: "jsDate \<Rightarrow> jsDate" where
  "setDateNext (Date t) = timeClip (t + msPerDay)"
| "setDateNext InvalidDate = InvalidDate"

text \<open>\<open>a < b\<close> and \<open>a >= b\<close> on dates compare time values; with \<open>NaN\<close> both are false.\<close>

fun date_lt :: "jsDate \<Rightarrow> jsDate \<Rightarrow> bool" where
  "date_lt (Date a) (Date b) = (a < b)"
| "date_lt _ _ = False"

fun date_ge :: "jsDate \<Rightarrow> jsDate \<Rightarrow> bool" where
  "date_ge (Date a) (Date b) = (a \<ge> b)"
| "date_ge _ _ = False"

text \<open>
  \<open>d.setHours(h, m, 0, 0)\<close>: the local day of \<open>d\<close> at \<open>h:m:00.000\<close>; hours and minutes
  out of range carry over arithmetically, and an argument that is \<open>NaN\<close> or infinite
  gives an Invalid Date. The arguments arrive as integers: the setter drops the
  fraction of a number.
\<close>

fun setHours :: "jsDate \<Rightarrow> int option \<Rightarrow> int option \<Rightarrow> jsDate" where
  "setHours (Date t) (Some h) (Some m) =
     timeClip ((t div msPerDay) * msPerDay + h * 3600000 + m * 60000)"
| "setHours _ _ _ = InvalidDate"

text \<open>
  What the runtime renders from a valid time value: \<open>toISOString\<close>, the en-US
  \<open>{month: 'short', day: 'numeric'}\<close> form of \<open>toLocaleDateString\<close>, \<open>getMonth\<close>,
  \<open>getDate\<close>; the \<open>new Date(string)\<close> parser; and \<open>Number(s)\<close> as a date setter
  reads it: the integer part of the number, or \<open>None\<close> when the number is \<open>NaN\<close> or
  infinite. They are parameters of the model.
\<close>

record jsRuntime =
  isoString :: "int \<Rightarrow> string"
  localeMonthDay :: "int \<Rightarrow> string"
  monthOf :: "int \<Rightarrow> int"
  dayOfMonth :: "int \<Rightarrow> int"
  newDateFromString :: "string \<Rightarrow> jsDate"
  numberToInteger :: "string \<Rightarrow> int option"

fun toISOString :: "jsRuntime \<Rightarrow> jsDate \<Rightarrow> exn + string" where
  "toISOString rt (Date t) = Inr (isoString rt t)"
| "toISOString rt InvalidDate = Inl (RangeError ''Invalid time value'')"

fun toLocaleDateString :: "jsRuntime \<Rightarrow> jsDate \<Rightarrow> string" where
  "toLocaleDateString rt (Date t) = localeMonthDay rt t"
| "toLocaleDateString rt InvalidDate = ''Invalid Date''"

fun getMonth :: "jsRuntime \<Rightarrow> jsDate \<Rightarrow> int option" where
  "getMonth rt (Date t) = Some (monthOf rt t)"
| "getMonth rt InvalidDate = None"

fun getDate :: "jsRuntime \<Rightarrow> jsDate \<Rightarrow> int option" where
  "getDate rt (Date t) = Some (dayOfMonth rt t)"
| "getDate rt InvalidDate = None"

subsection \<open>Weekday arithmetic\<close>

lemma weekDay_range: "0 \<le> weekDay t \<and> weekDay t < 7"
  by (simp add: weekDay_def)

lemma weekDay_add_days: "weekDay (k * msPerDay + t) = (weekDay t + k) mod 7"
proof -
  have "(k * msPerDay + t) div msPerDay = t div msPerDay + k"
    by (simp add: msPerDay_def)
  then show ?thesis
    unfolding weekDay_def by presburger
qed

lemma weekDay_next_cases:
  "weekDay (t + msPerDay) = (if weekDay t = 6 then 0 else weekDay t + 1)"
  using weekDay_range[of t] weekDay_add_days[of 1 t] by (simp add: add.commute)

text \<open>
  Termination measures of the day-stepping loops: the calendar days left before the
  next Monday, seen from a Friday or Saturday (for loops that count business days) and
  from a Saturday or Sunday (for loops that leave a weekend).
\<close>

fun weekendGap :: "jsDate \<Rightarrow> nat" where
  "weekendGap (Date t) = (if weekDay t = 5 then 2 else if weekDay t = 6 then 1 else 0)"
| "weekendGap InvalidDate = 0"

fun weekendLeft :: "jsDate \<Rightarrow> nat" where
  "weekendLeft (Date t) = (if weekDay t = 6 then 2 else if weekDay t = 0 then 1 else 0)"
| "weekendLeft InvalidDate = 0"

lemma weekendGap_le: "weekendGap r \<le> 2"
  by (cases r) auto

lemma weekendGap_weekend:
  assumes "getDay (setDateNext r) = Some 0 \<or> getDay (setDateNext r) = Some 6"
  shows "weekendGap (setDateNext r) < weekendGap r"
proof (cases r)
  case (Date t)
  with assms show ?thesis
    using weekDay_range[of t]
    by (auto simp: weekDay_next_cases timeClip_def split: if_splits)
next
  case InvalidDate
  with assms show ?thesis by simp
qed

lemma weekendLeft_next:
  assumes "getDay r = Some 0 \<or> getDay r = Some 6"
  shows "weekendLeft (setDateNext r) < weekendLeft r"
proof (cases r)
  case (Date t)
  with assms show ?thesis
    by (auto simp: weekDay_next_cases timeClip_def)
next
  case InvalidDate
  with assms show ?thesis by simp
qed

section \<open>Business-day arithmetic of \<open>delivery-estimate.js\<close>\<close>

text \<open>
  \<open>addBusinessDays(startDate, days)\<close>: the loop steps one calendar day at a time and
  counts a day when \<open>getDay()\<close> is neither 0 (Sunday) nor 6 (Saturday). On an Invalid
  Date \<open>getDay()\<close> is \<open>NaN\<close>, both tests succeed and every step is counted.
\<close>

function addBusinessDays_loop :: "jsDate \<Rightarrow> int \<Rightarrow> int \<Rightarrow> jsDate" where
  "addBusinessDays_loop result added days =
     (if added < days then
        (let result' = setDateNext result in
         if getDay result' \<noteq> Some 0 \<and> getDay result' \<noteq> Some 6
         then addBusinessDays_loop result' (added + 1) days
         else addBusinessDays_loop result' added days)
      else result)"
  by pat_completeness auto
termination
proof (relation "measure (\<lambda>(r, a, d). nat (3 * (d - a)) + weekendGap r)", goal_cases)
  case 1
  show ?case by simp
next
  case (2 result added days x)
  then show ?case using weekendGap_le[of "setDateNext result"] by simp
next
  case (3 result added days x)
  then have "weekendGap (setDateNext result) < weekendGap result"
    using weekendGap_weekend[of result] by blast
  with 3 show ?case by simp
qed

definition addBusinessDays :: "jsDate \<Rightarrow> int \<Rightarrow> jsDate" where
  "addBusinessDays startDate days = addBusinessDays_loop startDate 0 days"

text \<open>
  \<open>calculateShipDate(handlingDays, cutoffTime)\<close> reads the clock; the reading is the
  parameter \<open>now\<close>. Its first loop adds the handling days, its second leaves a weekend.
\<close>

function calculateShipDate_handling :: "jsDate \<Rightarrow> int \<Rightarrow> int \<Rightarrow> jsDate" where
  "calculateShipDate_handling shipDate daysAdded handlingDays =
     (if daysAdded < handlingDays then
        (let shipDate' = setDateNext shipDate in
         if getDay shipDate' \<noteq> Some 0 \<and> getDay shipDate' \<noteq> Some 6
         then calculateShipDate_handling shipDate' (daysAdded + 1) handlingDays
         else calculateShipDate_handling shipDate' daysAdded handlingDays)
      else shipDate)"
  by pat_completeness auto
termination
proof (relation "measure (\<lambda>(r, a, d). nat (3 * (d - a)) + weekendGap r)", goal_cases)
  case 1
  show ?case by simp
next
  case (2 shipDate daysAdded handlingDays x)
  then show ?case using weekendGap_le[of "setDateNext shipDate"] by simp
next
  case (3 shipDate daysAdded handlingDays x)
  then have "weekendGap (setDateNext shipDate) < weekendGap shipDate"
    using weekendGap_weekend[of shipDate] by blast
  with 3 show ?case by simp
qed

function calculateShipDate_weekend :: "jsDate \<Rightarrow> jsDate" where
  "calculateShipDate_weekend shipDate =
     (if getDay shipDate = Some 0 \<or> getDay shipDate = Some 6
      then calculateShipDate_weekend (setDateNext shipDate)
      else shipDate)"
  by pat_completeness auto
termination
proof (relation "measure weekendLeft", goal_cases)
  case 1
  show ?case by simp
next
  case (2 shipDate)
  then show ?case using weekendLeft_next[of shipDate] by simp
qed

definition calculateShipDate :: "jsRuntime \<Rightarrow> int \<Rightarrow> int \<Rightarrow> string \<Rightarrow> jsDate" where
  "calculateShipDate rt now handlingDays cutoffTime =
     (let parts = map (numberToInteger rt) (split_colon cutoffTime);
          cutoffHour = (case parts of h # _ \<Rightarrow> h | [] \<Rightarrow> None);
          cutoffMinute = (case parts of _ # m # _ \<Rightarrow> m | _ \<Rightarrow> None);
          cutoff = setHours (Date now) cutoffHour cutoffMinute;
          shipDate = (if date_ge (Date now) cutoff then setDateNext (Date now) else Date now)
      in calculateShipDate_weekend (calculateShipDate_handling shipDate 0 handlingDays))"

section \<open>Zone heuristic\<close>

text \<open>
  \<open>estimateTransitDays(originZip, destZip)\<close>. \<open>scfDiff\<close> is \<open>NaN\<close> as soon as one
  prefix does not parse; then every threshold test is false.
\<close>

definition estimateTransitDays :: "string option \<Rightarrow> string option \<Rightarrow> int" where
  "estimateTransitDays originZip destZip =
     (case (originZip, destZip) of
        (Some oz, Some dz) \<Rightarrow>
          if oz = [] \<or> dz = [] then 5
          else
            (let originSCF = parseInt (take 3 oz);
                 destSCF = parseInt (take 3 dz);
                 scfDiff = (case (originSCF, destSCF) of
                              (Some a, Some b) \<Rightarrow> Some (abs (a - b))
                            | _ \<Rightarrow> None)
             in if num_lt scfDiff 50 then 2
                else if num_lt scfDiff 200 then 3
                else if num_lt scfDiff 400 then 4
                else if num_lt scfDiff 600 then 5
                else 6)
      | _ \<Rightarrow> 5)"

section \<open>Formatting\<close>

record geoLocation =
  city :: "string option"
  region :: "string option"
  postalCode :: "string option"
  countryCode :: "string option"
  source :: "string option"

text \<open>A value inside a template string; \<open>undefined\<close> prints as its name.\<close>

fun strOf :: "string option \<Rightarrow> string" where
  "strOf None = ''undefined''"
| "strOf (Some s) = s"

fun formatDateRange :: "jsRuntime \<Rightarrow> jsDate option \<Rightarrow> jsDate option \<Rightarrow> exn + string" where
  "formatDateRange rt None maxDate =
     Inl (TypeError ''Cannot read properties of undefined (reading toLocaleDateString)'')"
| "formatDateRange rt (Some minDate) None =
     Inl (TypeError ''Cannot read properties of undefined (reading getMonth)'')"
| "formatDateRange rt (Some minDate) (Some maxDate) =
     (let minStr = toLocaleDateString rt minDate in
      case (getMonth rt minDate, getMonth rt maxDate, getDate rt maxDate) of
        (Some a, Some b, Some d) \<Rightarrow>
          if a = b then Inr (minStr @ '' - '' @ showInt d)
          else Inr (minStr @ '' - '' @ toLocaleDateString rt maxDate)
      | _ \<Rightarrow> Inr (minStr @ '' - '' @ toLocaleDateString rt maxDate))"

fun formatTransitDays :: "int option \<Rightarrow> string" where
  "formatTransitDays (Some days) =
     showInt days @ ''-'' @ showInt (days + 2) @ '' business days''"
| "formatTransitDays None = ''undefined-NaN business days''"

definition formatLocation :: "geoLocation \<Rightarrow> string option" where
  "formatLocation location' =
     (if truthy (city location') \<and> truthy (region location')
      then Some (strOf (city location') @ '', '' @ strOf (region location'))
      else if truthy (city location') then city location'
      else if truthy (region location') then region location'
      else countryCode location')"

section \<open>Carrier types\<close>

record address =
  addr_street :: "string option"
  addr_city :: "string option"
  addr_state :: "string option"
  addr_postalCode :: "string option"
  addr_countryCode :: "string option"

record transitTimeRequest =
  req_origin :: address
  req_destination :: address
  req_shipDate :: "jsDate option"
  req_serviceType :: "string option"

record transitTimeResponse =
  r_success :: bool
  r_error :: "string option"
  r_deliveryDateMin :: "jsDate option"
  r_deliveryDateMax :: "jsDate option"
  r_transitDays :: "int option"
  r_serviceName :: "string option"
  r_carrier :: "string option"

record carrierCredentials =
  apiKey :: "string option"
  secretKey :: "string option"
  accountNumber :: "string option"

definition CARRIERS_FEDEX :: string where
  "CARRIERS_FEDEX = ''fedex''"

definition FEDEX_SERVICE_TYPES_GROUND :: string where
  "FEDEX_SERVICE_TYPES_GROUND = ''FEDEX_GROUND''"

definition FEDEX_SANDBOX_URL :: string where
  "FEDEX_SANDBOX_URL = ''https://apis-sandbox.fedex.com''"

definition FEDEX_PRODUCTION_URL :: string where
  "FEDEX_PRODUCTION_URL = ''https://apis.fedex.com''"

text \<open>A failure response carries \<open>success\<close>, \<open>error\<close> and \<open>carrier\<close> only.\<close>

definition failureResponse :: "string option \<Rightarrow> string option \<Rightarrow> transitTimeResponse" where
  "failureResponse err name =
     \<lparr> r_success = False, r_error = err, r_deliveryDateMin = None,
       r_deliveryDateMax = None, r_transitDays = None, r_serviceName = None,
       r_carrier = name \<rparr>"

section \<open>The FedEx carrier\<close>

record fedExCarrier =
  credentials :: "carrierCredentials option"
  carrierName :: string
  baseUrl :: string
  accessToken :: "string option"
  tokenExpiry :: "jsDate option"

definition new_FedExCarrier :: "carrierCredentials option \<Rightarrow> bool \<Rightarrow> fedExCarrier" where
  "new_FedExCarrier creds useSandbox =
     \<lparr> credentials = creds, carrierName = CARRIERS_FEDEX,
       baseUrl = (if useSandbox then FEDEX_SANDBOX_URL else FEDEX_PRODUCTION_URL),
       accessToken = None, tokenExpiry = None \<rparr>"

definition createCarrier ::
  "string \<Rightarrow> carrierCredentials option \<Rightarrow> bool \<Rightarrow> exn + fedExCarrier" where
  "createCarrier carrierType creds useSandbox =
     (if carrierType = CARRIERS_FEDEX then Inr (new_FedExCarrier creds useSandbox)
      else Inl (Error (''Unsupported carrier: '' @ carrierType)))"

definition validateCredentials :: "fedExCarrier \<Rightarrow> bool" where
  "validateCredentials this =
     (case credentials this of
        None \<Rightarrow> False
      | Some cr \<Rightarrow> truthy (apiKey cr) \<and> truthy (secretKey cr) \<and> truthy (accountNumber cr))"

subsection \<open>The remote side\<close>

text \<open>
  A \<open>fetch\<close> either rejects or resolves to a response with its \<open>ok\<close> flag and the
  outcomes of reading its body as text and as JSON (\<open>None\<close> is the JSON value
  \<open>null\<close>). The outcome of each call is a parameter; the payload sent is not modelled.
\<close>

datatype 'a response = Response (ok: bool) (text_of: "exn + string") (json_of: "exn + 'a option")

record tokenData =
  access_token :: "string option"
  expires_in :: "int option"

record q_transitTime =
  q_transitDays :: "int option"
  q_description :: "string option"

record q_dateDetail =
  q_dayFormat :: "string option"

record q_commit =
  q_transit :: "q_transitTime option"
  q_date :: "q_dateDetail option"

record rateReplyDetail =
  q_commitOf :: "q_commit option"
  q_serviceName :: "string option"

record rateOutput =
  rateReplyDetails :: "rateReplyDetail list option"

record errorItem =
  q_message :: "string option"

record rateBody =
  q_errors :: "errorItem list option"
  q_output :: "rateOutput option"

record network =
  clock :: int
  oauthFetch :: "exn + tokenData response"
  rateFetch :: "exn + rateBody response"

subsection \<open>Access token\<close>

text \<open>
  \<open>getAccessToken()\<close> returns the token together with the carrier instance as the call
  leaves it (the cache fields updated after a successful exchange).
\<close>

definition getAccessToken ::
  "fedExCarrier \<Rightarrow> network \<Rightarrow> exn + (string option \<times> fedExCarrier)" where
  "getAccessToken this net =
     (if truthy (accessToken this) \<and>
         (case tokenExpiry this of None \<Rightarrow> False | Some e \<Rightarrow> date_lt (Date (clock net)) e)
      then Inr (accessToken this, this)
      else
        (case credentials this of
           None \<Rightarrow> Inl (TypeError ''Cannot read properties of undefined (reading apiKey)'')
         | Some cr \<Rightarrow>
             (case oauthFetch net of
                Inl e \<Rightarrow> Inl e
              | Inr resp \<Rightarrow>
                  if \<not> ok resp then
                    (case text_of resp of
                       Inl e \<Rightarrow> Inl e
                     | Inr err \<Rightarrow> Inl (Error (''FedEx OAuth failed: '' @ err)))
                  else
                    (case json_of resp of
                       Inl e \<Rightarrow> Inl e
                     | Inr None \<Rightarrow>
                         Inl (TypeError ''Cannot read properties of null (reading access_token)'')
                     | Inr (Some data) \<Rightarrow>
                         Inr (access_token data,
                              this\<lparr> accessToken := access_token data,
                                    tokenExpiry :=
                                      Some (case expires_in data of
                                              None \<Rightarrow> InvalidDate
                                            | Some s \<Rightarrow> timeClip (clock net + (s - 300) * 1000)) \<rparr>)))))"

subsection \<open>Date helpers of the carrier\<close>

definition formatDate :: "jsRuntime \<Rightarrow> jsDate \<Rightarrow> exn + string" where
  "formatDate rt date =
     (case toISOString rt date of
        Inl e \<Rightarrow> Inl e
      | Inr stamp \<Rightarrow> Inr (takeWhile (\<lambda>c. c \<noteq> CHR ''T'') stamp))"

function getNextBusinessDay_loop :: "jsDate \<Rightarrow> jsDate" where
  "getNextBusinessDay_loop result =
     (if getDay result = Some 0 \<or> getDay result = Some 6
      then getNextBusinessDay_loop (setDateNext result)
      else result)"
  by pat_completeness auto
termination
proof (relation "measure weekendLeft", goal_cases)
  case 1
  show ?case by simp
next
  case (2 result)
  then show ?case using weekendLeft_next[of result] by simp
qed

definition getNextBusinessDay :: "jsDate \<Rightarrow> jsDate" where
  "getNextBusinessDay date = getNextBusinessDay_loop (setDateNext date)"

function FedExCarrier_addBusinessDays_loop :: "jsDate \<Rightarrow> int \<Rightarrow> int \<Rightarrow> jsDate" where
  "FedExCarrier_addBusinessDays_loop result addedDays days =
     (if addedDays < days then
        (let result' = setDateNext result in
         if getDay result' \<noteq> Some 0 \<and> getDay result' \<noteq> Some 6
         then FedExCarrier_addBusinessDays_loop result' (addedDays + 1) days
         else FedExCarrier_addBusinessDays_loop result' addedDays days)
      else result)"
  by pat_completeness auto
termination
proof (relation "measure (\<lambda>(r, a, d). nat (3 * (d - a)) + weekendGap r)", goal_cases)
  case 1
  show ?case by simp
next
  case (2 result addedDays days x)
  then show ?case using weekendGap_le[of "setDateNext result"] by simp
next
  case (3 result addedDays days x)
  then have "weekendGap (setDateNext result) < weekendGap result"
    using weekendGap_weekend[of result] by blast
  with 3 show ?case by simp
qed

definition FedExCarrier_addBusinessDays :: "jsDate \<Rightarrow> int \<Rightarrow> jsDate" where
  "FedExCarrier_addBusinessDays startDate days =
     FedExCarrier_addBusinessDays_loop startDate 0 days"

text \<open>The time values still to cross before \<open>current < endDate\<close> fails.\<close>

fun daysToGo :: "jsDate \<Rightarrow> jsDate \<Rightarrow> nat" where
  "daysToGo (Date a) (Date b) = nat (b - a)"
| "daysToGo _ _ = 0"

function calculateBusinessDays_loop :: "jsDate \<Rightarrow> jsDate \<Rightarrow> int \<Rightarrow> int" where
  "calculateBusinessDays_loop current endDate count =
     (if date_lt current endDate then
        (let current' = setDateNext current in
         if getDay current' \<noteq> Some 0 \<and> getDay current' \<noteq> Some 6
         then calculateBusinessDays_loop current' endDate (count + 1)
         else calculateBusinessDays_loop current' endDate count)
      else count)"
  by pat_completeness auto
termination
proof (relation "measure (\<lambda>(c, e, n). daysToGo c e)", goal_cases)
  case 1
  show ?case by simp
next
  case (2 current endDate count x)
  then show ?case
    by (cases current; cases endDate) (auto simp: msPerDay_def timeClip_def split: if_splits)
next
  case (3 current endDate count x)
  then show ?case
    by (cases current; cases endDate) (auto simp: msPerDay_def timeClip_def split: if_splits)
qed

definition calculateBusinessDays :: "jsDate \<Rightarrow> jsDate \<Rightarrow> int" where
  "calculateBusinessDays startDate endDate = calculateBusinessDays_loop startDate endDate 0"

subsection \<open>Parsing the rate response\<close>

text \<open>
  \<open>a || b\<close> on a number that may be missing: 0, \<open>NaN\<close>, \<open>null\<close> and \<open>undefined\<close> are
  falsy.
\<close>

fun numOr :: "int option \<Rightarrow> int \<Rightarrow> int" where
  "numOr None d = d"
| "numOr (Some n) d = (if n = 0 then d else n)"

fun numTruthy :: "int option \<Rightarrow> bool" where
  "numTruthy None = False"
| "numTruthy (Some n) = (n \<noteq> 0)"

text \<open>
  \<open>parseTransitDays(description)\<close> matches the first run of decimal digits anywhere
  in the text and reads it in base 10. The count, like the one a reply quotes, is an
  exact integer here; in the code a run of several hundred digits (or a quoted
  \<open>1e400\<close>) is \<open>Infinity\<close>, on which the day-counting loop does not end.
\<close>

definition parseTransitDays :: "string option \<Rightarrow> int option" where
  "parseTransitDays description =
     (case description of
        None \<Rightarrow> None
      | Some d \<Rightarrow>
          if d = [] then None
          else (let ds = takeWhile isDigit (dropWhile (\<lambda>c. \<not> isDigit c) d)
                in if ds = [] then None else Some (decimal ds)))"

definition parseRateResponse_try ::
  "fedExCarrier \<Rightarrow> jsRuntime \<Rightarrow> rateBody option \<Rightarrow> jsDate \<Rightarrow> exn + transitTimeResponse" where
  "parseRateResponse_try this rt data shipDate =
     (case data of
        None \<Rightarrow> Inl (TypeError ''Cannot read properties of null (reading output)'')
      | Some body \<Rightarrow>
          (let rateReply =
                 (case q_output body of
                    None \<Rightarrow> None
                  | Some out \<Rightarrow>
                      (case rateReplyDetails out of
                         None \<Rightarrow> None
                       | Some [] \<Rightarrow> None
                       | Some (x # _) \<Rightarrow> Some x))
           in case rateReply of
                None \<Rightarrow>
                  Inr (failureResponse (Some ''No rate details in response'')
                         (Some (carrierName this)))
              | Some reply \<Rightarrow>
                  (let commit = q_commitOf reply;
                       transit = (case commit of None \<Rightarrow> None | Some cm \<Rightarrow> q_transit cm);
                       quoted = (case transit of None \<Rightarrow> None | Some tt \<Rightarrow> q_transitDays tt);
                       description =
                         (case transit of None \<Rightarrow> None | Some tt \<Rightarrow> q_description tt);
                       transitDays' =
                         (if numTruthy quoted then quoted else parseTransitDays description);
                       deliveryDateMin' =
                         FedExCarrier_addBusinessDays shipDate (numOr transitDays' 3);
                       deliveryDateMax' =
                         FedExCarrier_addBusinessDays shipDate (numOr transitDays' 3 + 2);
                       dayFormat =
                         (case commit of
                            None \<Rightarrow> None
                          | Some cm \<Rightarrow>
                              (case q_date cm of None \<Rightarrow> None | Some dd \<Rightarrow> q_dayFormat dd));
                       name = (if truthy (q_serviceName reply) then q_serviceName reply
                               else Some ''FedEx Ground'')
                   in if truthy dayFormat then
                        (let fedexDeliveryDate = newDateFromString rt (strOf dayFormat) in
                         Inr \<lparr> r_success = True, r_error = None,
                               r_deliveryDateMin = Some fedexDeliveryDate,
                               r_deliveryDateMax =
                                 Some (FedExCarrier_addBusinessDays fedexDeliveryDate 1),
                               r_transitDays =
                                 Some (numOr transitDays'
                                         (calculateBusinessDays shipDate fedexDeliveryDate)),
                               r_serviceName = name,
                               r_carrier = Some (carrierName this) \<rparr>)
                      else
                        Inr \<lparr> r_success = True, r_error = None,
                              r_deliveryDateMin = Some deliveryDateMin',
                              r_deliveryDateMax = Some deliveryDateMax',
                              r_transitDays = Some (numOr transitDays' 5),
                              r_serviceName = name,
                              r_carrier = Some (carrierName this) \<rparr>)))"

definition parseRateResponse ::
  "fedExCarrier \<Rightarrow> jsRuntime \<Rightarrow> rateBody option \<Rightarrow> jsDate \<Rightarrow> transitTimeResponse" where
  "parseRateResponse this rt data shipDate =
     (case parseRateResponse_try this rt data shipDate of
        Inr r \<Rightarrow> r
      | Inl e \<Rightarrow>
          failureResponse (Some ''Failed to parse rate response'') (Some (carrierName this)))"

subsection \<open>Transit time\<close>

text \<open>
  \<open>getTransitTime(request)\<close>: the body of its \<open>try\<close> block, where a raised exception is
  \<open>Inl\<close>, and the method with its \<open>catch\<close> handler. The method's own result is again
  a sum, so that "does not throw" is a statement about it.
\<close>

definition firstErrorMessage :: "rateBody \<Rightarrow> string option" where
  "firstErrorMessage errorData =
     (case q_errors errorData of
        None \<Rightarrow> None
      | Some [] \<Rightarrow> None
      | Some (e # _) \<Rightarrow> q_message e)"

definition getTransitTime_try ::
  "fedExCarrier \<Rightarrow> jsRuntime \<Rightarrow> network \<Rightarrow> transitTimeRequest \<Rightarrow> exn + transitTimeResponse" where
  "getTransitTime_try this rt net request =
     (if \<not> validateCredentials this then
        Inr (failureResponse (Some ''FedEx credentials not configured'')
               (Some (carrierName this)))
      else
        (case getAccessToken this net of
           Inl e \<Rightarrow> Inl e
         | Inr (token, this') \<Rightarrow>
             (let serviceType = (if truthy (req_serviceType request)
                                 then strOf (req_serviceType request)
                                 else FEDEX_SERVICE_TYPES_GROUND);
                  shipDate = (case req_shipDate request of
                                Some d \<Rightarrow> d
                              | None \<Rightarrow> getNextBusinessDay (Date (clock net)))
              in case formatDate rt shipDate of
                   Inl e \<Rightarrow> Inl e
                 | Inr shipDateStamp \<Rightarrow>
                     (case rateFetch net of
                        Inl e \<Rightarrow> Inl e
                      | Inr resp \<Rightarrow>
                          if \<not> ok resp then
                            (let errorData =
                                   (case json_of resp of
                                      Inl e \<Rightarrow> Some \<lparr> q_errors = None, q_output = None \<rparr>
                                    | Inr d \<Rightarrow> d)
                             in case errorData of
                                  None \<Rightarrow>
                                    Inl (TypeError
                                      ''Cannot read properties of null (reading errors)'')
                                | Some body \<Rightarrow>
                                    Inr (failureResponse
                                           (if truthy (firstErrorMessage body)
                                            then firstErrorMessage body
                                            else Some ''Failed to get rate quote'')
                                           (Some (carrierName this'))))
                          else
                            (case json_of resp of
                               Inl e \<Rightarrow> Inl e
                             | Inr data \<Rightarrow>
                                 Inr (parseRateResponse this' rt data shipDate))))))"

definition getTransitTime ::
  "fedExCarrier \<Rightarrow> jsRuntime \<Rightarrow> network \<Rightarrow> transitTimeRequest \<Rightarrow> exn + transitTimeResponse" where
  "getTransitTime this rt net request =
     (case getTransitTime_try this rt net request of
        Inr r \<Rightarrow> Inr r
      | Inl e \<Rightarrow> Inr (failureResponse (Some (message e)) (Some (carrierName this))))"

section \<open>The estimate orchestrator\<close>

text \<open>
  The settings record of a shop. \<open>processingDays\<close> is the text the settings page
  stores for "Days Your Facility Processes Orders": the checked weekday numbers
  joined by commas, \<open>1,2,3,4,5\<close> when none is checked.
\<close>

record appSettings =
  warehouseStreet :: "string option"
  warehouseCity :: string
  warehouseState :: string
  warehousePostalCode :: string
  warehouseCountryCode :: string
  handlingTimeDays :: int
  processingDays :: string
  cutoffTime :: string
  fedexApiKey :: "string option"
  fedexSecretKey :: "string option"
  fedexAccountNumber :: "string option"
  isEnabled :: bool
  showExactDates :: bool

record deliveryEstimate =
  success :: bool
  error :: "string option"
  deliveryDateMin :: "string option"
  deliveryDateMax :: "string option"
  displayText :: "string option"
  location :: "string option"
  transitDays :: "int option"
  isFallback :: "bool option"

text \<open>
  What the orchestrator reaches outside itself: the settings store, the postal-code
  lookup (\<open>getLocationFromPostalCode\<close> is imported from \<open>geolocation.js\<close>, which does
  not define it here, so its outcome is a parameter and may be an exception), the IP
  geolocation (which catches its own failures and returns a location or \<open>null\<close>), the
  clock, and the carrier's network.
\<close>

record world =
  getAppSettings :: "string \<Rightarrow> exn + appSettings option"
  getLocationFromPostalCode :: "string \<Rightarrow> exn + geoLocation option"
  getLocationFromIP :: "string option \<Rightarrow> geoLocation option"
  now :: int
  carrierNet :: network

text \<open>The outside calls a run makes, in order.\<close>

datatype effect =
    ReadSettings string
  | LookupPostalCode string
  | LookupIP "string option"
  | ReadClock
  | CarrierCall transitTimeRequest

definition getDefaultLocation :: geoLocation where
  "getDefaultLocation =
     \<lparr> city = Some ''Kansas City'', region = Some ''MO'', postalCode = Some ''64106'',
       countryCode = Some ''US'', source = Some ''default'' \<rparr>"

definition failureEstimate :: "string \<Rightarrow> deliveryEstimate" where
  "failureEstimate msg =
     \<lparr> success = False, error = Some msg, deliveryDateMin = None, deliveryDateMax = None,
       displayText = None, location = None, transitDays = None, isFallback = None \<rparr>"

text \<open>Lines 49 to 70: the destination, from the postal code or else from the IP.\<close>

definition resolveDestination ::
  "world \<Rightarrow> string option \<Rightarrow> string option \<Rightarrow> effect list \<times> (exn + geoLocation)" where
  "resolveDestination w customerIP postalCode' =
     (case postalCode' of
        Some pc \<Rightarrow>
          if pc \<noteq> [] then
            (case getLocationFromPostalCode w pc of
               Inl e \<Rightarrow> ([LookupPostalCode pc], Inl e)
             | Inr (Some destination) \<Rightarrow> ([LookupPostalCode pc], Inr destination)
             | Inr None \<Rightarrow>
                 ([LookupPostalCode pc],
                  Inr \<lparr> city = Some [], region = Some [], postalCode = Some pc,
                        countryCode = Some ''US'', source = None \<rparr>))
          else
            (case getLocationFromIP w customerIP of
               Some destination \<Rightarrow> ([LookupIP customerIP], Inr destination)
             | None \<Rightarrow> ([LookupIP customerIP], Inr getDefaultLocation))
      | None \<Rightarrow>
          (case getLocationFromIP w customerIP of
             Some destination \<Rightarrow> ([LookupIP customerIP], Inr destination)
           | None \<Rightarrow> ([LookupIP customerIP], Inr getDefaultLocation)))"

text \<open>Lines 73 to 79: the origin address from the warehouse settings.\<close>

definition buildOrigin :: "appSettings \<Rightarrow> address" where
  "buildOrigin settings =
     \<lparr> addr_street = (if truthy (warehouseStreet settings) then warehouseStreet settings
                      else None),
       addr_city = Some (warehouseCity settings),
       addr_state = Some (warehouseState settings),
       addr_postalCode = Some (warehousePostalCode settings),
       addr_countryCode = Some (warehouseCountryCode settings) \<rparr>"

text \<open>
  Lines 85 to 122: the carrier is asked only when the three credentials are set; an
  exception inside the inner \<open>try\<close> leaves \<open>{ success: false }\<close>.
\<close>

definition carrierTransit ::
  "jsRuntime \<Rightarrow> world \<Rightarrow> appSettings \<Rightarrow> address \<Rightarrow> geoLocation \<Rightarrow> jsDate \<Rightarrow>
   effect list \<times> transitTimeResponse option" where
  "carrierTransit rt w settings origin destination shipDate =
     (if truthy (fedexApiKey settings) \<and> truthy (fedexSecretKey settings) \<and>
         truthy (fedexAccountNumber settings)
      then
        (case createCarrier CARRIERS_FEDEX
                (Some \<lparr> apiKey = fedexApiKey settings, secretKey = fedexSecretKey settings,
                        accountNumber = fedexAccountNumber settings \<rparr>) True of
           Inl e \<Rightarrow> ([], Some (failureResponse None None))
         | Inr carrier \<Rightarrow>
             (let request =
                    \<lparr> req_origin = origin,
                      req_destination =
                        \<lparr> addr_street = None, addr_city = city destination,
                          addr_state = region destination,
                          addr_postalCode = postalCode destination,
                          addr_countryCode = countryCode destination \<rparr>,
                      req_shipDate = Some shipDate,
                      req_serviceType = Some FEDEX_SERVICE_TYPES_GROUND \<rparr>
              in case getTransitTime carrier rt (carrierNet w) request of
                   Inl e \<Rightarrow> ([CarrierCall request], Some (failureResponse None None))
                 | Inr transitResult \<Rightarrow> ([CarrierCall request], Some transitResult)))
      else ([], None))"

definition generateFallbackEstimate ::
  "jsRuntime \<Rightarrow> address \<Rightarrow> geoLocation \<Rightarrow> jsDate \<Rightarrow> appSettings \<Rightarrow> exn + deliveryEstimate" where
  "generateFallbackEstimate rt origin destination shipDate settings =
     (let transitDays' = estimateTransitDays (addr_postalCode origin) (postalCode destination);
          deliveryDateMin' = addBusinessDays shipDate transitDays';
          deliveryDateMax' = addBusinessDays shipDate (transitDays' + 2);
          locationText = formatLocation destination
      in case (if showExactDates settings
               then formatDateRange rt (Some deliveryDateMin') (Some deliveryDateMax')
               else Inr (formatTransitDays (Some transitDays'))) of
           Inl e \<Rightarrow> Inl e
         | Inr dateText \<Rightarrow>
             (case toISOString rt deliveryDateMin' of
                Inl e \<Rightarrow> Inl e
              | Inr isoMin \<Rightarrow>
                  (case toISOString rt deliveryDateMax' of
                     Inl e \<Rightarrow> Inl e
                   | Inr isoMax \<Rightarrow>
                       Inr \<lparr> success = True, error = None,
                             deliveryDateMin = Some isoMin, deliveryDateMax = Some isoMax,
                             displayText = Some (''Arrives '' @ dateText),
                             location = locationText,
                             transitDays = Some transitDays',
                             isFallback = Some True \<rparr>)))"

text \<open>Lines 130 to 143: the response built from a successful carrier result.\<close>

definition formatCarrierEstimate ::
  "jsRuntime \<Rightarrow> appSettings \<Rightarrow> geoLocation \<Rightarrow> transitTimeResponse \<Rightarrow> exn + deliveryEstimate" where
  "formatCarrierEstimate rt settings destination transitResult =
     (let locationText = formatLocation destination
      in case (if showExactDates settings
               then formatDateRange rt (r_deliveryDateMin transitResult)
                      (r_deliveryDateMax transitResult)
               else Inr (formatTransitDays (r_transitDays transitResult))) of
           Inl e \<Rightarrow> Inl e
         | Inr dateText \<Rightarrow>
             (case (case r_deliveryDateMin transitResult of
                      None \<Rightarrow> Inr None
                    | Some d \<Rightarrow> map_sum id Some (toISOString rt d)) of
                Inl e \<Rightarrow> Inl e
              | Inr isoMin \<Rightarrow>
                  (case (case r_deliveryDateMax transitResult of
                           None \<Rightarrow> Inr None
                         | Some d \<Rightarrow> map_sum id Some (toISOString rt d)) of
                     Inl e \<Rightarrow> Inl e
                   | Inr isoMax \<Rightarrow>
                       Inr \<lparr> success = True, error = None,
                             deliveryDateMin = isoMin, deliveryDateMax = isoMax,
                             displayText = Some (''Arrives '' @ dateText),
                             location = locationText,
                             transitDays = r_transitDays transitResult,
                             isFallback = None \<rparr>)))"

text \<open>
  \<open>getDeliveryEstimate(shop, customerIP, postalCode)\<close>: the body of the outer \<open>try\<close>
  block, then the function with its \<open>catch\<close> handler. Both return the outside calls made
  and the outcome.
\<close>

definition getDeliveryEstimate_try ::
  "jsRuntime \<Rightarrow> world \<Rightarrow> string \<Rightarrow> string option \<Rightarrow> string option \<Rightarrow>
   effect list \<times> (exn + deliveryEstimate)" where
  "getDeliveryEstimate_try rt w shop customerIP postalCode' =
     (case getAppSettings w shop of
        Inl e \<Rightarrow> ([ReadSettings shop], Inl e)
      | Inr None \<Rightarrow>
          ([ReadSettings shop], Inr (failureEstimate ''App not configured for this shop''))
      | Inr (Some settings) \<Rightarrow>
          if \<not> isEnabled settings then
            ([ReadSettings shop], Inr (failureEstimate ''Delivery estimates are disabled''))
          else
            (case resolveDestination w customerIP postalCode' of
               (fx1, Inl e) \<Rightarrow> (ReadSettings shop # fx1, Inl e)
             | (fx1, Inr destination) \<Rightarrow>
                 (let origin = buildOrigin settings;
                      shipDate = calculateShipDate rt (now w) (handlingTimeDays settings)
                                   (cutoffTime settings)
                  in case carrierTransit rt w settings origin destination shipDate of
                       (fx2, transitResult) \<Rightarrow>
                         (ReadSettings shop # fx1 @ [ReadClock] @ fx2,
                          (case transitResult of
                             None \<Rightarrow>
                               generateFallbackEstimate rt origin destination shipDate settings
                           | Some tr \<Rightarrow>
                               if \<not> r_success tr
                               then generateFallbackEstimate rt origin destination shipDate
                                      settings
                               else formatCarrierEstimate rt settings destination tr)))))"

definition getDeliveryEstimate ::
  "jsRuntime \<Rightarrow> world \<Rightarrow> string \<Rightarrow> string option \<Rightarrow> string option \<Rightarrow>
   effect list \<times> (exn + deliveryEstimate)" where
  "getDeliveryEstimate rt w shop customerIP postalCode' =
     (case getDeliveryEstimate_try rt w shop customerIP postalCode' of
        (fx, Inr estimate) \<Rightarrow> (fx, Inr estimate)
      | (fx, Inl e) \<Rightarrow> (fx, Inr (failureEstimate ''Failed to calculate delivery estimate'')))"

section \<open>Notions used in the statements\<close>

text \<open>The transit days the zone heuristic assigns to a difference of prefixes.\<close>

definition zoneDays :: "int \<Rightarrow> int" where
  "zoneDays d = (if d < 50 then 2 else if d < 200 then 3 else if d < 400 then 4
                 else if d < 600 then 5 else 6)"

text \<open>
  The invariant of a transit-time response: on success the earliest delivery date and
  the transit days are present; on failure the error is present and the dates and
  the transit days are absent.
\<close>

definition responseInvariant :: "transitTimeResponse \<Rightarrow> bool" where
  "responseInvariant r =
     (if r_success r
      then r_deliveryDateMin r \<noteq> None \<and> r_transitDays r \<noteq> None
      else r_error r \<noteq> None \<and> r_deliveryDateMin r = None \<and>
           r_deliveryDateMax r = None \<and> r_transitDays r = None)"

text \<open>The first rate detail of a rate reply, if the reply has one.\<close>

definition firstRateReply :: "rateBody \<Rightarrow> rateReplyDetail option" where
  "firstRateReply body =
     (case q_output body of
        None \<Rightarrow> None
      | Some out \<Rightarrow>
          (case rateReplyDetails out of
             None \<Rightarrow> None
           | Some details \<Rightarrow> (case details of [] \<Rightarrow> None | x # _ \<Rightarrow> Some x)))"

text \<open>The ship date a transit-time request carries, or else the carrier's default.\<close>

definition shipDateOf :: "network \<Rightarrow> transitTimeRequest \<Rightarrow> jsDate" where
  "shipDateOf net request =
     (case req_shipDate request of
        Some d \<Rightarrow> d
      | None \<Rightarrow> getNextBusinessDay (Date (clock net)))"

text \<open>
  The rate call is made: the carrier has its credentials, obtains a token, and the
  ship date can be formatted for the request.
\<close>

definition rateCallMade ::
  "fedExCarrier \<Rightarrow> jsRuntime \<Rightarrow> network \<Rightarrow> transitTimeRequest \<Rightarrow> bool" where
  "rateCallMade this rt net request =
     (validateCredentials this \<and>
      (case getAccessToken this net of Inl e \<Rightarrow> False | Inr tk \<Rightarrow> True) \<and>
      (case formatDate rt (shipDateOf net request) of Inl e \<Rightarrow> False | Inr stamp \<Rightarrow> True))"

text \<open>
  The weekday numbers a stored \<open>processingDays\<close> text names: the settings page writes
  single digits between commas, so they are the digits of the text.
\<close>

definition storedProcessingDays :: "string \<Rightarrow> int list" where
  "storedProcessingDays s = map digitVal (filter isDigit s)"

section \<open>Concrete inputs\<close>

text \<open>
  A runtime for January 1970 whose number conversion reads decimal digits, a
  configured carrier and one without credentials, a request, and outcomes of the
  remote calls.
\<close>

definition rt0 :: jsRuntime where
  "rt0 = \<lparr> isoString = (\<lambda>t. ''D+'' @ showInt (t div 86400000) @ ''T'' @
                                showInt (t mod 86400000)),
           localeMonthDay = (\<lambda>t. ''Jan '' @ showInt (t div 86400000 + 1)),
           monthOf = (\<lambda>t. 0), dayOfMonth = (\<lambda>t. t div 86400000 + 1),
           newDateFromString = (\<lambda>s. InvalidDate),
           numberToInteger = decimalNumber \<rparr>"

definition carrier0 :: fedExCarrier where
  "carrier0 = new_FedExCarrier
     (Some \<lparr> apiKey = Some ''key'', secretKey = Some ''secret'',
             accountNumber = Some ''123'' \<rparr>) True"

definition carrierBare :: fedExCarrier where
  "carrierBare = new_FedExCarrier
     (Some \<lparr> apiKey = Some ''key'', secretKey = None, accountNumber = Some ''123'' \<rparr>) True"

definition address0 :: address where
  "address0 = \<lparr> addr_street = None, addr_city = Some ''Summerville'',
                addr_state = Some ''SC'', addr_postalCode = Some ''29483'',
                addr_countryCode = Some ''US'' \<rparr>"

definition request0 :: transitTimeRequest where
  "request0 = \<lparr> req_origin = address0, req_destination = address0,
                req_shipDate = Some (Date 0), req_serviceType = None \<rparr>"

definition tokenOk :: "exn + tokenData response" where
  "tokenOk = Inr (Response True (Inr [])
                    (Inr (Some \<lparr> access_token = Some ''tok'', expires_in = Some 3600 \<rparr>)))"

text \<open>A rate reply with a rate detail and an empty \<open>commit\<close>: no transit signal at all.\<close>

definition bareReply :: rateBody where
  "bareReply =
     \<lparr> q_errors = None,
       q_output = Some \<lparr> rateReplyDetails =
         Some [\<lparr> q_commitOf = Some \<lparr> q_transit = None, q_date = None \<rparr>,
                 q_serviceName = None \<rparr>] \<rparr> \<rparr>"

definition netBare :: network where
  "netBare = \<lparr> clock = 0, oauthFetch = tokenOk,
               rateFetch = Inr (Response True (Inr []) (Inr (Some bareReply))) \<rparr>"

definition netAuthFails :: network where
  "netAuthFails = \<lparr> clock = 0,
                    oauthFetch = Inr (Response False (Inr ''denied'') (Inr None)),
                    rateFetch = Inl (TypeError ''fetch failed'') \<rparr>"

text \<open>
  The rate call rejected by the network, answered with an HTTP error, answered with
  text that is not JSON, with the JSON value \<open>null\<close>, and with an empty list of rate
  details.
\<close>

definition netDown :: network where
  "netDown = \<lparr> clock = 0, oauthFetch = tokenOk,
               rateFetch = Inl (TypeError ''fetch failed'') \<rparr>"

definition netHttpError :: network where
  "netHttpError =
     \<lparr> clock = 0, oauthFetch = tokenOk,
       rateFetch = Inr (Response False (Inr [])
         (Inr (Some \<lparr> q_errors = Some [\<lparr> q_message = Some ''Invalid account number'' \<rparr>],
                      q_output = None \<rparr>))) \<rparr>"

definition netNotJson :: network where
  "netNotJson = \<lparr> clock = 0, oauthFetch = tokenOk,
                  rateFetch = Inr (Response True (Inr [])
                                     (Inl (SyntaxError ''Unexpected token <''))) \<rparr>"

definition netNull :: network where
  "netNull = \<lparr> clock = 0, oauthFetch = tokenOk,
               rateFetch = Inr (Response True (Inr []) (Inr None)) \<rparr>"

definition netNoRates :: network where
  "netNoRates =
     \<lparr> clock = 0, oauthFetch = tokenOk,
       rateFetch = Inr (Response True (Inr [])
         (Inr (Some \<lparr> q_errors = None,
                      q_output = Some \<lparr> rateReplyDetails = Some [] \<rparr> \<rparr>))) \<rparr>"

text \<open>Settings without carrier credentials, and worlds around them.\<close>

definition settings0 :: appSettings where
  "settings0 =
     \<lparr> warehouseStreet = None, warehouseCity = ''Summerville'', warehouseState = ''SC'',
       warehousePostalCode = ''29483'', warehouseCountryCode = ''US'',
       handlingTimeDays = 1, processingDays = ''1,2,3,4,5'', cutoffTime = ''14:00'',
       fedexApiKey = None, fedexSecretKey = None, fedexAccountNumber = None,
       isEnabled = True, showExactDates = False \<rparr>"

definition world0 :: world where
  "world0 =
     \<lparr> getAppSettings = (\<lambda>s. if s = ''shop.example'' then Inr (Some settings0)
                              else if s = ''off.example''
                              then Inr (Some (settings0\<lparr> isEnabled := False \<rparr>))
                              else Inr None),
       getLocationFromPostalCode = (\<lambda>p. Inr None),
       getLocationFromIP = (\<lambda>i. None),
       now = 0,
       carrierNet = netAuthFails \<rparr>"

definition destination0 :: geoLocation where
  "destination0 = \<lparr> city = Some [], region = Some [], postalCode = Some ''32401'',
                    countryCode = Some ''US'', source = None \<rparr>"

text \<open>
  A world whose settings store is down; settings with credentials, in a world whose
  token exchange is refused and in a world whose carrier quotes a delivery date the
  runtime cannot parse.
\<close>

definition worldDown :: world where
  "worldDown = world0\<lparr> getAppSettings := (\<lambda>s. Inl (Error ''database unavailable'')) \<rparr>"

definition datedReply :: rateBody where
  "datedReply =
     \<lparr> q_errors = None,
       q_output = Some \<lparr> rateReplyDetails =
         Some [\<lparr> q_commitOf = Some \<lparr> q_transit = None,
                                      q_date = Some \<lparr> q_dayFormat = Some ''soon'' \<rparr> \<rparr>,
                 q_serviceName = None \<rparr>] \<rparr> \<rparr>"

definition settingsCreds :: appSettings where
  "settingsCreds = settings0\<lparr> fedexApiKey := Some ''key'', fedexSecretKey := Some ''secret'',
                              fedexAccountNumber := Some ''123'' \<rparr>"

definition worldCreds :: world where
  "worldCreds = world0\<lparr> getAppSettings := (\<lambda>s. Inr (Some settingsCreds)) \<rparr>"

definition worldDated :: world where
  "worldDated =
     worldCreds\<lparr> carrierNet :=
       \<lparr> clock = 0, oauthFetch = tokenOk,
         rateFetch = Inr (Response True (Inr []) (Inr (Some datedReply))) \<rparr> \<rparr>"

text \<open>
  Settings whose only processing day is Saturday, and settings with a hundred million
  handling days in a world whose clock reads 14 November 2023, 22:13:20.
\<close>

definition settingsSat :: appSettings where
  "settingsSat = settings0\<lparr> processingDays := ''6'' \<rparr>"

definition worldSat :: world where
  "worldSat = world0\<lparr> getAppSettings := (\<lambda>s. Inr (Some settingsSat)) \<rparr>"

definition settingsHuge :: appSettings where
  "settingsHuge = settings0\<lparr> handlingTimeDays := 100000000 \<rparr>"

definition worldHuge :: world where
  "worldHuge = world0\<lparr> getAppSettings := (\<lambda>s. Inr (Some settingsHuge)),
                       now := 1700000000000 \<rparr>"

section \<open>Properties of the day-stepping loops\<close>

declare addBusinessDays_loop.simps [simp del]
declare FedExCarrier_addBusinessDays_loop.simps [simp del]
declare calculateShipDate_handling.simps [simp del]
declare calculateShipDate_weekend.simps [simp del]
declare getNextBusinessDay_loop.simps [simp del]
declare calculateBusinessDays_loop.simps [simp del]

lemma loop_done: "\<not> added < days \<Longrightarrow> addBusinessDays_loop r added days = r"
  by (simp add: addBusinessDays_loop.simps)

lemma FedExCarrier_loop_eq:
  "FedExCarrier_addBusinessDays_loop r a d = addBusinessDays_loop r a d"
proof (induction r a d rule: addBusinessDays_loop.induct)
  case (1 result added days)
  show ?case
    using 1
    by (subst FedExCarrier_addBusinessDays_loop.simps, subst addBusinessDays_loop.simps)
       (simp add: Let_def)
qed

lemma FedExCarrier_addBusinessDays_eq:
  "FedExCarrier_addBusinessDays d n = addBusinessDays d n"
  by (simp add: FedExCarrier_addBusinessDays_def addBusinessDays_def FedExCarrier_loop_eq)

lemma handling_loop_eq:
  "calculateShipDate_handling r a d = addBusinessDays_loop r a d"
proof (induction r a d rule: addBusinessDays_loop.induct)
  case (1 result added days)
  show ?case
    using 1
    by (subst calculateShipDate_handling.simps, subst addBusinessDays_loop.simps)
       (simp add: Let_def)
qed

lemma loop_extend:
  "added \<le> days \<Longrightarrow>
   addBusinessDays_loop r added (days + 1) =
   addBusinessDays_loop (addBusinessDays_loop r added days) days (days + 1)"
proof (induction r added days rule: addBusinessDays_loop.induct)
  case (1 result added days)
  show ?case
  proof (cases "added < days")
    case True
    then show ?thesis
      using 1
      by (subst addBusinessDays_loop.simps, subst (2) addBusinessDays_loop.simps)
         (auto simp: Let_def)
  next
    case False
    with 1 have "added = days" by simp
    then show ?thesis by (simp add: loop_done)
  qed
qed

text \<open>An Invalid Date stays invalid: every step is counted and none changes it.\<close>

lemma loop_invalid_aux:
  "r = InvalidDate \<longrightarrow> addBusinessDays_loop r added days = InvalidDate"
proof (induction r added days rule: addBusinessDays_loop.induct)
  case (1 result added days)
  show ?case
  proof
    assume r: "result = InvalidDate"
    show "addBusinessDays_loop result added days = InvalidDate"
    proof (cases "added < days")
      case True
      have biz: "getDay (setDateNext result) \<noteq> Some 0 \<and> getDay (setDateNext result) \<noteq> Some 6"
        using r by simp
      from 1(1)[OF True refl biz] r
      have "addBusinessDays_loop (setDateNext result) (added + 1) days = InvalidDate"
        by simp
      with True biz show ?thesis
        by (subst addBusinessDays_loop.simps) (simp add: Let_def)
    next
      case False
      then show ?thesis using r by (simp add: loop_done)
    qed
  qed
qed

lemma loop_invalid: "addBusinessDays_loop InvalidDate added days = InvalidDate"
  using loop_invalid_aux by blast

text \<open>
  A loop that ends on a valid date has moved forward by at least one calendar day
  for each day counted, and has stayed inside the range.
\<close>

lemma loop_bounds_aux:
  "\<forall>t t'. r = Date t \<longrightarrow> addBusinessDays_loop r added days = Date t' \<longrightarrow>
     t \<le> t' \<and> (added \<le> days \<longrightarrow> t + (days - added) * msPerDay \<le> t') \<and>
     (added < days \<longrightarrow> t' \<le> maxTime)"
proof (induction r added days rule: addBusinessDays_loop.induct)
  case (1 result added days)
  show ?case
  proof (intro allI impI)
    fix t t'
    assume r: "result = Date t" and res: "addBusinessDays_loop result added days = Date t'"
    have pos: "0 < msPerDay" by (simp add: msPerDay_def)
    show "t \<le> t' \<and> (added \<le> days \<longrightarrow> t + (days - added) * msPerDay \<le> t') \<and>
          (added < days \<longrightarrow> t' \<le> maxTime)"
    proof (cases "added < days")
      case False
      then show ?thesis using r res by (auto simp: loop_done)
    next
      case True
      let ?r' = "setDateNext result"
      show ?thesis
      proof (cases ?r')
        case InvalidDate
        then have "addBusinessDays_loop result added days = InvalidDate"
          using True
          by (subst addBusinessDays_loop.simps) (simp add: Let_def loop_invalid)
        with res show ?thesis by simp
      next
        case (Date s)
        then have s: "s = t + msPerDay" "s \<le> maxTime"
          using r by (auto simp: timeClip_def split: if_splits)
        show ?thesis
        proof (cases "getDay ?r' \<noteq> Some 0 \<and> getDay ?r' \<noteq> Some 6")
          case biz: True
          have step: "addBusinessDays_loop ?r' (added + 1) days = Date t'"
            using res True biz
            by (subst (asm) addBusinessDays_loop.simps) (simp add: Let_def)
          from 1(1)[OF True refl biz] Date step
          have ih: "s \<le> t'" "added + 1 \<le> days \<longrightarrow> s + (days - (added + 1)) * msPerDay \<le> t'"
            "added + 1 < days \<longrightarrow> t' \<le> maxTime"
            by auto
          have last: "\<not> added + 1 < days \<longrightarrow> t' = s"
            using step Date by (auto simp: loop_done)
          have "t + (days - added) * msPerDay \<le> t'"
            using ih(2) True s(1) by (simp add: algebra_simps)
          moreover have "t' \<le> maxTime"
            using ih(3) last s(2) by auto
          moreover have "t \<le> t'"
            using ih(1) s(1) pos by simp
          ultimately show ?thesis by simp
        next
          case wk: False
          have step: "addBusinessDays_loop ?r' added days = Date t'"
            using res True wk
            by (subst (asm) addBusinessDays_loop.simps) (auto simp: Let_def)
          from 1(2)[OF True refl wk] Date step
          have ih: "s \<le> t'" "added \<le> days \<longrightarrow> s + (days - added) * msPerDay \<le> t'"
            "added < days \<longrightarrow> t' \<le> maxTime"
            by auto
          show ?thesis
            using ih True s(1) pos by auto
        qed
      qed
    qed
  qed
qed

lemma loop_bounds:
  assumes "addBusinessDays_loop (Date t) added days = Date t'"
  shows "t \<le> t'" and "added \<le> days \<Longrightarrow> t + (days - added) * msPerDay \<le> t'"
    and "added < days \<Longrightarrow> t' \<le> maxTime"
  using loop_bounds_aux assms by blast+

lemma loop_out_of_range:
  assumes "added < days" "maxTime < t + (days - added) * msPerDay"
  shows "addBusinessDays_loop (Date t) added days = InvalidDate"
proof (cases "addBusinessDays_loop (Date t) added days")
  case (Date t')
  from loop_bounds(2)[OF Date] loop_bounds(3)[OF Date] assms
  show ?thesis by simp
next
  case InvalidDate
  then show ?thesis .
qed

lemma addBusinessDays_step_back:
  assumes "0 \<le> k" "addBusinessDays d (k + 1) = Date u"
  shows "\<exists>v. addBusinessDays d k = Date v \<and> v < u"
proof (cases "addBusinessDays d k")
  case InvalidDate
  then have "addBusinessDays d (k + 1) = InvalidDate"
    using loop_extend[OF assms(1), of d]
    by (simp add: addBusinessDays_def loop_invalid)
  with assms(2) show ?thesis by simp
next
  case (Date v)
  then have "addBusinessDays_loop (Date v) k (k + 1) = Date u"
    using loop_extend[OF assms(1), of d] assms(2)
    by (simp add: addBusinessDays_def)
  from loop_bounds(2)[OF this] have "v + msPerDay \<le> u" by simp
  then have "v < u" by (simp add: msPerDay_def)
  with Date show ?thesis by simp
qed

lemma addBusinessDays_back_add:
  "0 \<le> n \<Longrightarrow> addBusinessDays d (n + 1 + int j) = Date u \<Longrightarrow>
   \<exists>v. addBusinessDays d n = Date v \<and> v < u"
proof (induction j arbitrary: u)
  case 0
  then show ?case using addBusinessDays_step_back[of n d u] by simp
next
  case (Suc j)
  have e: "n + 1 + int (Suc j) = (n + 1 + int j) + 1" by simp
  from Suc.prems(2) have "addBusinessDays d ((n + 1 + int j) + 1) = Date u"
    unfolding e .
  then obtain w where w: "addBusinessDays d (n + 1 + int j) = Date w" "w < u"
    using addBusinessDays_step_back[of "n + 1 + int j" d u] Suc.prems(1) by auto
  from Suc.IH[OF Suc.prems(1) w(1)] w(2) show ?case by auto
qed

lemma addBusinessDays_strict_mono:
  assumes "0 \<le> n" "n < m" "addBusinessDays d m = Date u"
  shows "date_lt (addBusinessDays d n) (addBusinessDays d m)"
proof -
  have "m = n + 1 + int (nat (m - n - 1))" using assms by simp
  then have "addBusinessDays d (n + 1 + int (nat (m - n - 1))) = Date u"
    using assms(3) by simp
  from addBusinessDays_back_add[OF assms(1) this] assms(3)
  show ?thesis by auto
qed

text \<open>
  C8, as the code has it. Adding zero business days returns the start date itself.
  For 0 \<open>\<le>\<close> n < m the result for n is strictly before the result for m whenever the
  result for m is a valid date, that is, as long as the days added stay inside the
  range of time values. Both copies of the function (the service's and the
  carrier's) behave so.
\<close>

theorem addBusinessDays_zero_and_strictly_increasing:
  "addBusinessDays d 0 = d \<and> FedExCarrier_addBusinessDays d 0 = d \<and>
   (0 \<le> n \<and> n < m \<and> addBusinessDays d m = Date u \<longrightarrow>
      date_lt (addBusinessDays d n) (addBusinessDays d m)) \<and>
   (0 \<le> n \<and> n < m \<and> FedExCarrier_addBusinessDays d m = Date u \<longrightarrow>
      date_lt (FedExCarrier_addBusinessDays d n) (FedExCarrier_addBusinessDays d m))"
proof -
  have z: "addBusinessDays d 0 = d"
    by (simp add: addBusinessDays_def loop_done)
  have m: "0 \<le> n \<and> n < m \<and> addBusinessDays d m = Date u \<longrightarrow>
           date_lt (addBusinessDays d n) (addBusinessDays d m)"
    using addBusinessDays_strict_mono[of n m d u] by blast
  show ?thesis
    using z m by (simp add: FedExCarrier_addBusinessDays_eq)
qed

theorem addBusinessDays_zero_and_strictly_increasing_witness:
  "addBusinessDays (Date 0) 0 = Date 0 \<and> (0::int) \<le> 1 \<and> (1::int) < 3 \<and>
   addBusinessDays (Date 0) 3 = Date 432000000 \<and>
   FedExCarrier_addBusinessDays (Date 0) 3 = Date 432000000 \<and>
   addBusinessDays (Date 0) 1 = Date 86400000 \<and>
   date_lt (addBusinessDays (Date 0) 1) (addBusinessDays (Date 0) 3) \<and>
   date_lt (FedExCarrier_addBusinessDays (Date 0) 1) (FedExCarrier_addBusinessDays (Date 0) 3)"
proof -
  have a: "addBusinessDays (Date 0) 1 = Date 86400000"
    by code_simp
  have b: "addBusinessDays (Date 0) 3 = Date 432000000"
    by code_simp
  have c: "FedExCarrier_addBusinessDays (Date 0) 3 = Date 432000000"
    by code_simp
  show ?thesis
    using addBusinessDays_zero_and_strictly_increasing[of "Date 0" 1 3 432000000] a b c
    by simp
qed

text \<open>
  C8, as the specification words it, fails at the last time value of the range: one
  business day after it is an Invalid Date, and the start date is not before it.
\<close>

theorem addBusinessDays_range_counterexample:
  "addBusinessDays (Date 8640000000000000) 0 = Date 8640000000000000 \<and>
   addBusinessDays (Date 8640000000000000) 1 = InvalidDate \<and>
   \<not> date_lt (addBusinessDays (Date 8640000000000000) 0)
              (addBusinessDays (Date 8640000000000000) 1)"
  by code_simp

text \<open>
  C10. For every date and every number of days that is zero or negative, the loop of
  \<open>addBusinessDays\<close> does not run and the start date is returned.
\<close>

theorem addBusinessDays_nonpositive:
  "n \<le> 0 \<Longrightarrow> addBusinessDays d n = d"
  by (simp add: addBusinessDays_def addBusinessDays_loop.simps)

theorem addBusinessDays_nonpositive_witness:
  "(-3::int) \<le> 0 \<and> addBusinessDays (Date 1000) (-3) = Date 1000 \<and>
   addBusinessDays InvalidDate (-3) = InvalidDate"
  using addBusinessDays_nonpositive[of "-3" "Date 1000"]
        addBusinessDays_nonpositive[of "-3" InvalidDate]
  by simp

section \<open>Properties of the zone heuristic\<close>

lemma parseInt_three_digits:
  assumes "isDigit c1" "isDigit c2" "isDigit c3"
  shows "parseInt (take 3 (c1 # c2 # c3 # rest)) =
         Some (100 * digitVal c1 + 10 * digitVal c2 + digitVal c3)"
proof -
  have ns: "\<not> isSpace c1" using assms(1) by (auto simp: isDigit_def isSpace_def)
  have nm: "c1 \<noteq> CHR ''-''" "c1 \<noteq> CHR ''+''"
    using assms(1) by (auto simp: isDigit_def)
  have t: "take 3 (c1 # c2 # c3 # rest) = [c1, c2, c3]"
    by (simp add: numeral_3_eq_3)
  show ?thesis
    unfolding t parseInt_def using ns nm assms by (simp add: decimal_def)
qed

lemma estimateTransitDays_numeric:
  assumes "oz \<noteq> []" "dz \<noteq> []" "parseInt (take 3 oz) = Some a" "parseInt (take 3 dz) = Some b"
  shows "estimateTransitDays (Some oz) (Some dz) = zoneDays (abs (a - b))"
  using assms by (simp add: estimateTransitDays_def zoneDays_def)

lemma estimateTransitDays_range:
  "2 \<le> estimateTransitDays originZip destZip \<and> estimateTransitDays originZip destZip \<le> 6"
  by (auto simp: estimateTransitDays_def Let_def split: option.splits)

text \<open>
  C4. When either postal code is absent (missing or empty) the estimate is 5.
  Otherwise, when both prefixes parse, the estimate follows the thresholds on the
  absolute difference (below 50: 2, below 200: 3, below 400: 4, below 600: 5,
  else 6); and for codes that begin with three digits the parsed prefix is the
  integer those three digits form.
\<close>

theorem estimateTransitDays_thresholds:
  "(\<not> truthy originZip \<or> \<not> truthy destZip \<longrightarrow> estimateTransitDays originZip destZip = 5) \<and>
   (oz \<noteq> [] \<and> dz \<noteq> [] \<and> parseInt (take 3 oz) = Some a \<and> parseInt (take 3 dz) = Some b \<longrightarrow>
      estimateTransitDays (Some oz) (Some dz) =
        (let d = abs (a - b) in
         if d < 50 then 2 else if d < 200 then 3 else if d < 400 then 4
         else if d < 600 then 5 else 6)) \<and>
   (isDigit o1 \<and> isDigit o2 \<and> isDigit o3 \<and> isDigit d1 \<and> isDigit d2 \<and> isDigit d3 \<longrightarrow>
      estimateTransitDays (Some (o1 # o2 # o3 # orest)) (Some (d1 # d2 # d3 # drest)) =
        (let d = abs ((100 * digitVal o1 + 10 * digitVal o2 + digitVal o3) -
                      (100 * digitVal d1 + 10 * digitVal d2 + digitVal d3)) in
         if d < 50 then 2 else if d < 200 then 3 else if d < 400 then 4
         else if d < 600 then 5 else 6))"
proof (intro conjI impI)
  assume "\<not> truthy originZip \<or> \<not> truthy destZip"
  then show "estimateTransitDays originZip destZip = 5"
    by (cases originZip; cases destZip) (auto simp: estimateTransitDays_def)
next
  assume "oz \<noteq> [] \<and> dz \<noteq> [] \<and> parseInt (take 3 oz) = Some a \<and> parseInt (take 3 dz) = Some b"
  then show "estimateTransitDays (Some oz) (Some dz) =
        (let d = abs (a - b) in
         if d < 50 then 2 else if d < 200 then 3 else if d < 400 then 4
         else if d < 600 then 5 else 6)"
    using estimateTransitDays_numeric[of oz dz a b] by (simp add: zoneDays_def Let_def)
next
  assume d: "isDigit o1 \<and> isDigit o2 \<and> isDigit o3 \<and> isDigit d1 \<and> isDigit d2 \<and> isDigit d3"
  have "estimateTransitDays (Some (o1 # o2 # o3 # orest)) (Some (d1 # d2 # d3 # drest)) =
        zoneDays (abs ((100 * digitVal o1 + 10 * digitVal o2 + digitVal o3) -
                      (100 * digitVal d1 + 10 * digitVal d2 + digitVal d3)))"
    using d by (intro estimateTransitDays_numeric parseInt_three_digits) simp_all
  then show "estimateTransitDays (Some (o1 # o2 # o3 # orest)) (Some (d1 # d2 # d3 # drest)) =
        (let d = abs ((100 * digitVal o1 + 10 * digitVal o2 + digitVal o3) -
                      (100 * digitVal d1 + 10 * digitVal d2 + digitVal d3)) in
         if d < 50 then 2 else if d < 200 then 3 else if d < 400 then 4
         else if d < 600 then 5 else 6)"
    by (simp add: zoneDays_def Let_def)
qed

theorem estimateTransitDays_thresholds_witness:
  "\<not> truthy None \<and> estimateTransitDays None (Some ''32301'') = 5 \<and>
   isDigit CHR ''2'' \<and> isDigit CHR ''9'' \<and> isDigit CHR ''4'' \<and>
   isDigit CHR ''7'' \<and> isDigit CHR ''3'' \<and> isDigit CHR ''3'' \<and>
   estimateTransitDays (Some ''29483'') (Some ''73301'') = 5 \<and>
   ''29483'' \<noteq> [] \<and> ''10001'' \<noteq> [] \<and>
   parseInt (take 3 ''29483'') = Some 294 \<and> parseInt (take 3 ''10001'') = Some 100 \<and>
   estimateTransitDays (Some ''29483'') (Some ''10001'') = 3"
proof -
  have dg: "isDigit CHR ''2''" "isDigit CHR ''9''" "isDigit CHR ''4''"
           "isDigit CHR ''7''" "isDigit CHR ''3''"
    by (simp_all add: isDigit_def)
  have p1: "parseInt (take 3 ''29483'') = Some 294"
    using parseInt_three_digits[OF dg(1) dg(2) dg(3), of "''83''"] by (simp add: digitVal_def)
  have dg2: "isDigit CHR ''1''" "isDigit CHR ''0''" by (simp_all add: isDigit_def)
  have p2: "parseInt (take 3 ''10001'') = Some 100"
    using parseInt_three_digits[OF dg2(1) dg2(2) dg2(2), of "''01''"] by (simp add: digitVal_def)
  show ?thesis
    using estimateTransitDays_thresholds[of None "Some ''32301''" "''29483''" "''10001''" 294 100
            "CHR ''2''" "CHR ''9''" "CHR ''4''" "CHR ''7''" "CHR ''3''" "CHR ''3''" "''83''" "''01''"]
          dg p1 p2
    by (simp add: digitVal_def)
qed

text \<open>
  C9. For two non-empty postal codes of which a leading three-character prefix does
  not parse as an integer, the difference is not a number, all four threshold tests
  fail and the estimate is 6.
\<close>

theorem estimateTransitDays_non_numeric:
  "oz \<noteq> [] \<Longrightarrow> dz \<noteq> [] \<Longrightarrow>
   parseInt (take 3 oz) = None \<or> parseInt (take 3 dz) = None \<Longrightarrow>
   estimateTransitDays (Some oz) (Some dz) = 6"
  by (auto simp: estimateTransitDays_def split: option.splits)

lemma parseInt_K1A: "parseInt (take 3 ''K1A 0B1'') = None"
  by (simp add: parseInt_def isSpace_def isDigit_def numeral_3_eq_3)

lemma parseInt_M5V: "parseInt (take 3 ''M5V 2T6'') = None"
  by (simp add: parseInt_def isSpace_def isDigit_def numeral_3_eq_3)

theorem estimateTransitDays_non_numeric_witness:
  "''K1A 0B1'' \<noteq> [] \<and> ''M5V 2T6'' \<noteq> [] \<and>
   parseInt (take 3 ''K1A 0B1'') = None \<and> parseInt (take 3 ''M5V 2T6'') = None \<and>
   estimateTransitDays (Some ''K1A 0B1'') (Some ''M5V 2T6'') = 6"
  using estimateTransitDays_non_numeric[of "''K1A 0B1''" "''M5V 2T6''"]
        parseInt_K1A parseInt_M5V
  by simp

section \<open>Properties of the carrier\<close>

lemma failureResponse_invariant:
  "responseInvariant (failureResponse (Some m) c)"
  by (simp add: responseInvariant_def failureResponse_def)

lemma truthy_present: "truthy e \<Longrightarrow> \<exists>m. e = Some m"
  by (cases e) auto

lemma failureResponse_invariant_truthy:
  "truthy e \<Longrightarrow> responseInvariant (failureResponse e c)"
  by (cases e) (auto simp: responseInvariant_def failureResponse_def)

lemma failureResponse_fields:
  "\<not> r_success (failureResponse e c) \<and> r_error (failureResponse e c) = e \<and>
   r_carrier (failureResponse e c) = c"
  by (simp add: failureResponse_def)

lemma parseRateResponse_try_ok:
  assumes "parseRateResponse_try this rt data shipDate = Inr r"
  shows "responseInvariant r \<and> r_carrier r = Some (carrierName this) \<and>
         (\<not> r_success r \<longrightarrow> r_error r \<noteq> None)"
  using assms
  unfolding parseRateResponse_try_def Let_def
  by (auto simp: responseInvariant_def failureResponse_def
           split: option.splits list.splits if_splits)

lemma parseRateResponse_ok:
  "responseInvariant (parseRateResponse this rt data shipDate) \<and>
   r_carrier (parseRateResponse this rt data shipDate) = Some (carrierName this) \<and>
   (\<not> r_success (parseRateResponse this rt data shipDate) \<longrightarrow>
      r_error (parseRateResponse this rt data shipDate) \<noteq> None)"
proof (cases "parseRateResponse_try this rt data shipDate")
  case (Inl e)
  then show ?thesis
    by (simp add: parseRateResponse_def failureResponse_invariant failureResponse_fields)
next
  case (Inr r)
  then show ?thesis
    using parseRateResponse_try_ok[OF Inr] by (simp add: parseRateResponse_def)
qed

lemma getAccessToken_carrierName:
  "getAccessToken this net = Inr (token, this') \<Longrightarrow> carrierName this' = carrierName this"
  unfolding getAccessToken_def
  by (auto split: if_splits option.splits sum.splits)

lemma getTransitTime_try_ok:
  assumes "getTransitTime_try this rt net request = Inr r"
  shows "responseInvariant r \<and> r_carrier r = Some (carrierName this) \<and>
         (\<not> r_success r \<longrightarrow> r_error r \<noteq> None)"
proof (cases "validateCredentials this")
  case False
  with assms show ?thesis
    by (auto simp: getTransitTime_try_def failureResponse_invariant failureResponse_fields)
next
  case True
  then obtain token this' where tok: "getAccessToken this net = Inr (token, this')"
    using assms by (auto simp: getTransitTime_try_def split: sum.splits)
  have nm: "carrierName this' = carrierName this"
    using getAccessToken_carrierName[OF tok] .
  show ?thesis
    using assms True tok parseRateResponse_ok[of this' rt _ _]
    unfolding getTransitTime_try_def Let_def
    by (auto simp: nm failureResponse_invariant failureResponse_fields
                   failureResponse_invariant_truthy
             dest: truthy_present
             split: sum.splits option.splits if_splits)
qed

lemma parseRateResponse_null:
  "parseRateResponse this rt None shipDate =
     failureResponse (Some ''Failed to parse rate response'') (Some (carrierName this))"
  by (simp add: parseRateResponse_def parseRateResponse_try_def)

lemma parseRateResponse_no_rates:
  "firstRateReply body = None \<Longrightarrow>
   parseRateResponse this rt (Some body) shipDate =
     failureResponse (Some ''No rate details in response'') (Some (carrierName this))"
  by (auto simp: parseRateResponse_def parseRateResponse_try_def firstRateReply_def
           split: option.splits list.splits)

lemma parseRateResponse_rated:
  "firstRateReply body = Some reply \<Longrightarrow>
   r_success (parseRateResponse this rt (Some body) shipDate) \<and>
   r_error (parseRateResponse this rt (Some body) shipDate) = None"
  by (auto simp: parseRateResponse_def parseRateResponse_try_def firstRateReply_def Let_def
           split: option.splits list.splits)

lemma getTransitTime_no_credentials:
  "\<not> validateCredentials this \<Longrightarrow>
   getTransitTime this rt net request =
     Inr (failureResponse (Some ''FedEx credentials not configured'') (Some (carrierName this)))"
  by (simp add: getTransitTime_def getTransitTime_try_def)

lemma getTransitTime_auth_failure:
  "validateCredentials this \<Longrightarrow> getAccessToken this net = Inl e \<Longrightarrow>
   getTransitTime this rt net request =
     Inr (failureResponse (Some (message e)) (Some (carrierName this)))"
  by (simp add: getTransitTime_def getTransitTime_try_def)

lemma getTransitTime_bad_shipDate:
  "validateCredentials this \<Longrightarrow> getAccessToken this net = Inr tk \<Longrightarrow>
   formatDate rt (shipDateOf net request) = Inl e \<Longrightarrow>
   getTransitTime this rt net request =
     Inr (failureResponse (Some (message e)) (Some (carrierName this)))"
  by (cases tk) (simp add: getTransitTime_def getTransitTime_try_def shipDateOf_def)

lemma getTransitTime_after_rate_call:
  assumes "rateCallMade this rt net request"
  shows "(\<forall>e. rateFetch net = Inl e \<longrightarrow>
            getTransitTime this rt net request =
              Inr (failureResponse (Some (message e)) (Some (carrierName this)))) \<and>
         (\<forall>resp. rateFetch net = Inr resp \<and> \<not> ok resp \<longrightarrow>
            (\<exists>m. getTransitTime this rt net request =
                   Inr (failureResponse (Some m) (Some (carrierName this))))) \<and>
         (\<forall>resp e. rateFetch net = Inr resp \<and> ok resp \<and> json_of resp = Inl e \<longrightarrow>
            getTransitTime this rt net request =
              Inr (failureResponse (Some (message e)) (Some (carrierName this)))) \<and>
         (\<forall>resp. rateFetch net = Inr resp \<and> ok resp \<and> json_of resp = Inr None \<longrightarrow>
            getTransitTime this rt net request =
              Inr (failureResponse (Some ''Failed to parse rate response'')
                     (Some (carrierName this)))) \<and>
         (\<forall>resp body. rateFetch net = Inr resp \<and> ok resp \<and> json_of resp = Inr (Some body) \<and>
            firstRateReply body = None \<longrightarrow>
            getTransitTime this rt net request =
              Inr (failureResponse (Some ''No rate details in response'')
                     (Some (carrierName this)))) \<and>
         (\<forall>resp body reply. rateFetch net = Inr resp \<and> ok resp \<and>
            json_of resp = Inr (Some body) \<and> firstRateReply body = Some reply \<longrightarrow>
            (\<exists>r. getTransitTime this rt net request = Inr r \<and> r_success r \<and>
                 r_error r = None))"
proof -
  from assms obtain token this' stamp where
    v: "validateCredentials this" and
    tok: "getAccessToken this net = Inr (token, this')" and
    st: "formatDate rt (shipDateOf net request) = Inr stamp"
    by (auto simp: rateCallMade_def split: sum.splits)
  have nm: "carrierName this' = carrierName this"
    using getAccessToken_carrierName[OF tok] .
  have st': "formatDate rt (case req_shipDate request of
                             None \<Rightarrow> getNextBusinessDay (Date (clock net))
                           | Some d \<Rightarrow> d) = Inr stamp"
    using st by (simp add: shipDateOf_def)
  have body: "getTransitTime_try this rt net request =
     (case rateFetch net of
        Inl e \<Rightarrow> Inl e
      | Inr resp \<Rightarrow>
          if \<not> ok resp then
            (case (case json_of resp of
                     Inl e \<Rightarrow> Some \<lparr> q_errors = None, q_output = None \<rparr>
                   | Inr d \<Rightarrow> d) of
               None \<Rightarrow> Inl (TypeError ''Cannot read properties of null (reading errors)'')
             | Some body \<Rightarrow>
                 Inr (failureResponse
                        (if truthy (firstErrorMessage body) then firstErrorMessage body
                         else Some ''Failed to get rate quote'')
                        (Some (carrierName this))))
          else
            (case json_of resp of
               Inl e \<Rightarrow> Inl e
             | Inr data \<Rightarrow>
                 Inr (parseRateResponse this' rt data
                        (case req_shipDate request of
                           None \<Rightarrow> getNextBusinessDay (Date (clock net))
                         | Some d \<Rightarrow> d))))"
    using v tok st' by (auto simp: getTransitTime_try_def Let_def nm split: sum.splits)
  show ?thesis
  proof (intro conjI allI impI)
    fix e assume "rateFetch net = Inl e"
    then show "getTransitTime this rt net request =
              Inr (failureResponse (Some (message e)) (Some (carrierName this)))"
      by (simp add: getTransitTime_def body)
  next
    fix resp assume a: "rateFetch net = Inr resp \<and> \<not> ok resp"
    show "\<exists>m. getTransitTime this rt net request =
                   Inr (failureResponse (Some m) (Some (carrierName this)))"
    proof (cases "case json_of resp of
                     Inl e \<Rightarrow> Some \<lparr> q_errors = None, q_output = None \<rparr>
                   | Inr d \<Rightarrow> d")
      case None
      then have "getTransitTime this rt net request =
                   Inr (failureResponse
                          (Some ''Cannot read properties of null (reading errors)'')
                          (Some (carrierName this)))"
        using a by (simp add: getTransitTime_def body)
      then show ?thesis by blast
    next
      case (Some b)
      show ?thesis
      proof (cases "truthy (firstErrorMessage b)")
        case True
        then obtain m where "firstErrorMessage b = Some m"
          using truthy_present by blast
        then have "getTransitTime this rt net request =
                     Inr (failureResponse (Some m) (Some (carrierName this)))"
          using a Some True by (simp add: getTransitTime_def body)
        then show ?thesis by blast
      next
        case False
        then have "getTransitTime this rt net request =
                     Inr (failureResponse (Some ''Failed to get rate quote'')
                            (Some (carrierName this)))"
          using a Some by (simp add: getTransitTime_def body)
        then show ?thesis by blast
      qed
    qed
  next
    fix resp e assume "rateFetch net = Inr resp \<and> ok resp \<and> json_of resp = Inl e"
    then show "getTransitTime this rt net request =
              Inr (failureResponse (Some (message e)) (Some (carrierName this)))"
      by (simp add: getTransitTime_def body)
  next
    fix resp assume "rateFetch net = Inr resp \<and> ok resp \<and> json_of resp = Inr None"
    then show "getTransitTime this rt net request =
              Inr (failureResponse (Some ''Failed to parse rate response'')
                     (Some (carrierName this)))"
      by (simp add: getTransitTime_def body parseRateResponse_null nm)
  next
    fix resp b
    assume "rateFetch net = Inr resp \<and> ok resp \<and> json_of resp = Inr (Some b) \<and>
            firstRateReply b = None"
    then show "getTransitTime this rt net request =
              Inr (failureResponse (Some ''No rate details in response'')
                     (Some (carrierName this)))"
      by (simp add: getTransitTime_def body parseRateResponse_no_rates nm)
  next
    fix resp b reply
    assume "rateFetch net = Inr resp \<and> ok resp \<and>
            json_of resp = Inr (Some b) \<and> firstRateReply b = Some reply"
    then show "\<exists>r. getTransitTime this rt net request = Inr r \<and> r_success r \<and>
                 r_error r = None"
      using parseRateResponse_rated[of b reply this' rt]
      by (simp add: getTransitTime_def body)
  qed
qed

text \<open>
  C6. \<open>getTransitTime\<close> never throws: for every carrier instance, request and outcome
  of the remote calls it returns a response, which satisfies the invariant (success:
  earliest delivery date and transit days present; failure: error present, dates and
  days absent) and names the carrier. An exception raised inside its body becomes
  the failure response carrying the exception's message. Each failure path yields
  \<open>success: false\<close> with an error and the carrier name: missing credentials, a failed
  token exchange, a ship date that cannot be formatted, a rate call the network
  rejects, an HTTP error reply, a body that is not JSON or is \<open>null\<close>, and a reply
  without rate details. Only a reply with a rate detail yields success.
\<close>

theorem getTransitTime_never_throws:
  "(\<exists>r. getTransitTime this rt net request = Inr r \<and> responseInvariant r \<and>
        r_carrier r = Some (carrierName this) \<and>
        (\<not> r_success r \<longrightarrow> r_error r \<noteq> None)) \<and>
   (\<forall>e. getTransitTime_try this rt net request = Inl e \<longrightarrow>
        getTransitTime this rt net request =
          Inr (failureResponse (Some (message e)) (Some (carrierName this)))) \<and>
   (\<not> validateCredentials this \<longrightarrow>
      getTransitTime this rt net request =
        Inr (failureResponse (Some ''FedEx credentials not configured'')
               (Some (carrierName this)))) \<and>
   (\<forall>e. validateCredentials this \<and> getAccessToken this net = Inl e \<longrightarrow>
      getTransitTime this rt net request =
        Inr (failureResponse (Some (message e)) (Some (carrierName this)))) \<and>
   (\<forall>tk e. validateCredentials this \<and> getAccessToken this net = Inr tk \<and>
      formatDate rt (shipDateOf net request) = Inl e \<longrightarrow>
      getTransitTime this rt net request =
        Inr (failureResponse (Some (message e)) (Some (carrierName this)))) \<and>
   (rateCallMade this rt net request \<longrightarrow>
      (\<forall>e. rateFetch net = Inl e \<longrightarrow>
         getTransitTime this rt net request =
           Inr (failureResponse (Some (message e)) (Some (carrierName this)))) \<and>
      (\<forall>resp. rateFetch net = Inr resp \<and> \<not> ok resp \<longrightarrow>
         (\<exists>m. getTransitTime this rt net request =
                Inr (failureResponse (Some m) (Some (carrierName this))))) \<and>
      (\<forall>resp e. rateFetch net = Inr resp \<and> ok resp \<and> json_of resp = Inl e \<longrightarrow>
         getTransitTime this rt net request =
           Inr (failureResponse (Some (message e)) (Some (carrierName this)))) \<and>
      (\<forall>resp. rateFetch net = Inr resp \<and> ok resp \<and> json_of resp = Inr None \<longrightarrow>
         getTransitTime this rt net request =
           Inr (failureResponse (Some ''Failed to parse rate response'')
                  (Some (carrierName this)))) \<and>
      (\<forall>resp body. rateFetch net = Inr resp \<and> ok resp \<and> json_of resp = Inr (Some body) \<and>
         firstRateReply body = None \<longrightarrow>
         getTransitTime this rt net request =
           Inr (failureResponse (Some ''No rate details in response'')
                  (Some (carrierName this)))) \<and>
      (\<forall>resp body reply. rateFetch net = Inr resp \<and> ok resp \<and>
         json_of resp = Inr (Some body) \<and> firstRateReply body = Some reply \<longrightarrow>
         (\<exists>r. getTransitTime this rt net request = Inr r \<and> r_success r \<and>
              r_error r = None)))"
proof -
  have total: "\<exists>r. getTransitTime this rt net request = Inr r \<and> responseInvariant r \<and>
        r_carrier r = Some (carrierName this) \<and>
        (\<not> r_success r \<longrightarrow> r_error r \<noteq> None)"
  proof (cases "getTransitTime_try this rt net request")
    case (Inl e)
    then show ?thesis
      by (simp add: getTransitTime_def failureResponse_invariant failureResponse_fields)
  next
    case (Inr r)
    then show ?thesis
      using getTransitTime_try_ok[OF Inr] by (simp add: getTransitTime_def)
  qed
  have caught: "\<forall>e. getTransitTime_try this rt net request = Inl e \<longrightarrow>
        getTransitTime this rt net request =
          Inr (failureResponse (Some (message e)) (Some (carrierName this)))"
    by (simp add: getTransitTime_def)
  show ?thesis
    using total caught getTransitTime_no_credentials[of this rt net request]
          getTransitTime_auth_failure[of this net _ rt request]
          getTransitTime_bad_shipDate[of this net _ rt request]
          getTransitTime_after_rate_call[of this rt net request]
    by (intro conjI) blast+
qed

lemma add3: "FedExCarrier_addBusinessDays (Date 0) 3 = Date 432000000"
  by code_simp

lemma add5: "FedExCarrier_addBusinessDays (Date 0) 5 = Date 604800000"
  by code_simp

lemma getTransitTime_bare:
  "getTransitTime carrier0 rt0 netBare request0 =
     Inr \<lparr> r_success = True, r_error = None,
           r_deliveryDateMin = Some (Date 432000000),
           r_deliveryDateMax = Some (Date 604800000),
           r_transitDays = Some 5, r_serviceName = Some ''FedEx Ground'',
           r_carrier = Some ''fedex'' \<rparr>"
  by code_simp

lemma getTransitTime_authFails:
  "getTransitTime carrier0 rt0 netAuthFails request0 =
     Inr (failureResponse (Some ''FedEx OAuth failed: denied'') (Some ''fedex''))"
  by code_simp

lemma made_carrier0:
  "rateCallMade carrier0 rt0 netBare request0" "rateCallMade carrier0 rt0 netDown request0"
  "rateCallMade carrier0 rt0 netHttpError request0"
  "rateCallMade carrier0 rt0 netNotJson request0"
  "rateCallMade carrier0 rt0 netNull request0" "rateCallMade carrier0 rt0 netNoRates request0"
  by code_simp+

theorem getTransitTime_never_throws_witness:
  "(\<exists>r. getTransitTime carrier0 rt0 netBare request0 = Inr r \<and> r_success r \<and>
        r_deliveryDateMin r \<noteq> None \<and> r_transitDays r \<noteq> None) \<and>
   \<not> validateCredentials carrierBare \<and>
   getTransitTime carrierBare rt0 netBare request0 =
     Inr (failureResponse (Some ''FedEx credentials not configured'') (Some ''fedex'')) \<and>
   validateCredentials carrier0 \<and>
   getAccessToken carrier0 netAuthFails = Inl (Error ''FedEx OAuth failed: denied'') \<and>
   getTransitTime_try carrier0 rt0 netAuthFails request0 =
     Inl (Error ''FedEx OAuth failed: denied'') \<and>
   (\<exists>r. getTransitTime carrier0 rt0 netAuthFails request0 = Inr r \<and> \<not> r_success r \<and>
        r_error r = Some ''FedEx OAuth failed: denied'' \<and> r_carrier r = Some ''fedex'' \<and>
        r_deliveryDateMin r = None \<and> r_deliveryDateMax r = None \<and> r_transitDays r = None) \<and>
   formatDate rt0 (shipDateOf netBare (request0\<lparr> req_shipDate := Some InvalidDate \<rparr>)) =
     Inl (RangeError ''Invalid time value'') \<and>
   getTransitTime carrier0 rt0 netBare (request0\<lparr> req_shipDate := Some InvalidDate \<rparr>) =
     Inr (failureResponse (Some ''Invalid time value'') (Some ''fedex'')) \<and>
   rateCallMade carrier0 rt0 netDown request0 \<and>
   rateFetch netDown = Inl (TypeError ''fetch failed'') \<and>
   getTransitTime carrier0 rt0 netDown request0 =
     Inr (failureResponse (Some ''fetch failed'') (Some ''fedex'')) \<and>
   getTransitTime carrier0 rt0 netHttpError request0 =
     Inr (failureResponse (Some ''Invalid account number'') (Some ''fedex'')) \<and>
   getTransitTime carrier0 rt0 netNotJson request0 =
     Inr (failureResponse (Some ''Unexpected token <'') (Some ''fedex'')) \<and>
   getTransitTime carrier0 rt0 netNull request0 =
     Inr (failureResponse (Some ''Failed to parse rate response'') (Some ''fedex'')) \<and>
   getTransitTime carrier0 rt0 netNoRates request0 =
     Inr (failureResponse (Some ''No rate details in response'') (Some ''fedex''))"
proof -
  have nm: "carrierName carrier0 = ''fedex''" "carrierName carrierBare = ''fedex''"
    by code_simp+
  have nv: "\<not> validateCredentials carrierBare"
    by code_simp
  have v: "validateCredentials carrier0"
    by code_simp
  have au: "getAccessToken carrier0 netAuthFails = Inl (Error ''FedEx OAuth failed: denied'')"
    by code_simp
  have tk: "getAccessToken carrier0 netBare =
              Inr (Some ''tok'', carrier0\<lparr> accessToken := Some ''tok'',
                                            tokenExpiry := Some (Date 3300000) \<rparr>)"
    by code_simp
  have t: "getTransitTime_try carrier0 rt0 netAuthFails request0 =
             Inl (Error ''FedEx OAuth failed: denied'')"
    by code_simp
  have fd: "formatDate rt0 (shipDateOf netBare (request0\<lparr> req_shipDate := Some InvalidDate \<rparr>)) =
              Inl (RangeError ''Invalid time value'')"
    by code_simp
  have f1: "rateFetch netDown = Inl (TypeError ''fetch failed'')"
    by (simp add: netDown_def)
  have f2: "rateFetch netHttpError = Inr (Response False (Inr [])
         (Inr (Some \<lparr> q_errors = Some [\<lparr> q_message = Some ''Invalid account number'' \<rparr>],
                      q_output = None \<rparr>)))"
    by (simp add: netHttpError_def)
  have f3: "rateFetch netNotJson =
              Inr (Response True (Inr []) (Inl (SyntaxError ''Unexpected token <'')))"
    by (simp add: netNotJson_def)
  have f4: "rateFetch netNull = Inr (Response True (Inr []) (Inr None))"
    by (simp add: netNull_def)
  have f5: "rateFetch netNoRates = Inr (Response True (Inr [])
         (Inr (Some \<lparr> q_errors = None,
                      q_output = Some \<lparr> rateReplyDetails = Some [] \<rparr> \<rparr>)))"
    by (simp add: netNoRates_def)
  have f6: "firstRateReply \<lparr> q_errors = None,
                              q_output = Some \<lparr> rateReplyDetails = Some [] \<rparr> \<rparr> = None"
    by (simp add: firstRateReply_def)
  have http: "getTransitTime carrier0 rt0 netHttpError request0 =
     Inr (failureResponse (Some ''Invalid account number'') (Some ''fedex''))"
    by code_simp
  have c1: "getTransitTime carrierBare rt0 netBare request0 =
     Inr (failureResponse (Some ''FedEx credentials not configured'') (Some ''fedex''))"
    using getTransitTime_never_throws[of carrierBare rt0 netBare request0] nv nm by simp
  have c2: "getTransitTime carrier0 rt0 netAuthFails request0 =
     Inr (failureResponse (Some ''FedEx OAuth failed: denied'') (Some ''fedex''))"
    using getTransitTime_never_throws[of carrier0 rt0 netAuthFails request0] v au nm by simp
  have c3: "getTransitTime carrier0 rt0 netBare (request0\<lparr> req_shipDate := Some InvalidDate \<rparr>) =
     Inr (failureResponse (Some ''Invalid time value'') (Some ''fedex''))"
    using getTransitTime_never_throws[of carrier0 rt0 netBare
            "request0\<lparr> req_shipDate := Some InvalidDate \<rparr>"] v tk fd nm
    by simp
  have c4: "getTransitTime carrier0 rt0 netDown request0 =
     Inr (failureResponse (Some ''fetch failed'') (Some ''fedex''))"
    using getTransitTime_never_throws[of carrier0 rt0 netDown request0] made_carrier0(2) f1 nm
    by simp
  have c5: "\<exists>m. getTransitTime carrier0 rt0 netHttpError request0 =
     Inr (failureResponse (Some m) (Some ''fedex''))"
    using getTransitTime_never_throws[of carrier0 rt0 netHttpError request0] made_carrier0(3)
          f2 nm
    by simp
  have c6: "getTransitTime carrier0 rt0 netNotJson request0 =
     Inr (failureResponse (Some ''Unexpected token <'') (Some ''fedex''))"
    using getTransitTime_never_throws[of carrier0 rt0 netNotJson request0] made_carrier0(4)
          f3 nm
    by simp
  have c7: "getTransitTime carrier0 rt0 netNull request0 =
     Inr (failureResponse (Some ''Failed to parse rate response'') (Some ''fedex''))"
    using getTransitTime_never_throws[of carrier0 rt0 netNull request0] made_carrier0(5) f4 nm
    by simp
  have c8: "getTransitTime carrier0 rt0 netNoRates request0 =
     Inr (failureResponse (Some ''No rate details in response'') (Some ''fedex''))"
    using getTransitTime_never_throws[of carrier0 rt0 netNoRates request0] made_carrier0(6)
          f5 f6 nm
    by simp
  have c9: "\<exists>r. getTransitTime carrier0 rt0 netBare request0 = Inr r \<and> r_success r \<and>
        r_deliveryDateMin r \<noteq> None \<and> r_transitDays r \<noteq> None"
    using getTransitTime_never_throws[of carrier0 rt0 netBare request0] getTransitTime_bare
    by (auto simp: responseInvariant_def)
  show ?thesis
    using c1 c2 c3 c4 c6 c7 c8 c9 http nv v au t fd f1 made_carrier0(2)
    by (simp add: failureResponse_def)
qed

text \<open>
  C7. At a rate reply that has a rate detail but no transit-day count, no
  description and no delivery date, the parsed response is successful with the
  earliest delivery date 3 business days and the latest 5 business days after the
  ship date, and it reports 5 transit days, the number of the latest date, not the
  3 of the earliest.
\<close>

theorem parseRateResponse_default_reports_five:
  "parseRateResponse carrier0 rt (Some bareReply) (Date 0) =
     \<lparr> r_success = True, r_error = None,
       r_deliveryDateMin = Some (FedExCarrier_addBusinessDays (Date 0) 3),
       r_deliveryDateMax = Some (FedExCarrier_addBusinessDays (Date 0) 5),
       r_transitDays = Some 5, r_serviceName = Some ''FedEx Ground'',
       r_carrier = Some ''fedex'' \<rparr> \<and>
   FedExCarrier_addBusinessDays (Date 0) 3 = Date 432000000 \<and>
   FedExCarrier_addBusinessDays (Date 0) 5 = Date 604800000 \<and>
   formatTransitDays (Some 5) = ''5-7 business days''"
proof -
  have "formatTransitDays (Some 5) = ''5-7 business days''"
    by code_simp
  then show ?thesis
    by (simp add: add3 add5 parseRateResponse_def parseRateResponse_try_def bareReply_def
          carrier0_def new_FedExCarrier_def CARRIERS_FEDEX_def parseTransitDays_def)
qed

section \<open>Properties of the orchestrator\<close>

lemma weekend_loop_invalid: "calculateShipDate_weekend InvalidDate = InvalidDate"
  by (subst calculateShipDate_weekend.simps) simp

lemma addBusinessDays_invalid: "addBusinessDays InvalidDate n = InvalidDate"
  by (simp add: addBusinessDays_def loop_invalid)

lemma addBusinessDays_two_back:
  assumes "0 \<le> n" "addBusinessDays d (n + 2) = Date u"
  shows "\<exists>v. addBusinessDays d n = Date v"
proof -
  have "addBusinessDays d (n + 1 + int 1) = Date u"
    using assms(2) by (simp add: add.assoc)
  from addBusinessDays_back_add[OF assms(1) this] show ?thesis by blast
qed

lemma formatDateRange_present: "\<exists>s. formatDateRange rt (Some a) (Some b) = Inr s"
  by (auto simp: Let_def split: option.splits)

lemma generateFallbackEstimate_valid:
  assumes "addBusinessDays shipDate
             (estimateTransitDays (addr_postalCode origin) (postalCode destination) + 2) = Date u"
  shows "\<exists>est isoMin isoMax.
     generateFallbackEstimate rt origin destination shipDate settings = Inr est \<and>
     success est \<and> error est = None \<and> isFallback est = Some True \<and>
     transitDays est =
       Some (estimateTransitDays (addr_postalCode origin) (postalCode destination)) \<and>
     toISOString rt (addBusinessDays shipDate
        (estimateTransitDays (addr_postalCode origin) (postalCode destination))) = Inr isoMin \<and>
     deliveryDateMin est = Some isoMin \<and>
     toISOString rt (addBusinessDays shipDate
        (estimateTransitDays (addr_postalCode origin) (postalCode destination) + 2)) = Inr isoMax \<and>
     deliveryDateMax est = Some isoMax \<and>
     displayText est \<noteq> None"
proof -
  let ?td = "estimateTransitDays (addr_postalCode origin) (postalCode destination)"
  have "0 \<le> ?td"
    using estimateTransitDays_range[of "addr_postalCode origin" "postalCode destination"]
    by simp
  then obtain a where a: "addBusinessDays shipDate ?td = Date a"
    using addBusinessDays_two_back[OF _ assms] by blast
  obtain s where s: "formatDateRange rt (Some (Date a)) (Some (Date u)) = Inr s"
    using formatDateRange_present by blast
  show ?thesis
    unfolding generateFallbackEstimate_def Let_def a assms
    by (cases "showExactDates settings") (simp_all add: s del: formatDateRange.simps)
qed

text \<open>
  C5, as the code has it. In a run that reaches the carrier step (settings found and
  enabled, destination resolved), whenever the carrier result is absent or
  unsuccessful and the latest delivery date
  \<open>addBusinessDays(shipDate, transitDays + 2)\<close> is a valid date, the estimate is
  successful, is marked as fallback, reports
  \<open>estimateTransitDays(origin postal code, destination postal code)\<close> transit days,
  and its earliest and latest delivery dates are the ISO strings of
  \<open>addBusinessDays(shipDate, transitDays)\<close> and \<open>addBusinessDays(shipDate, transitDays + 2)\<close>.
  Without the three credentials the carrier result is absent. Postal prefixes that
  differ by 30 give 2 transit days.
\<close>

theorem fallback_when_carrier_unavailable:
  assumes "getAppSettings w shop = Inr (Some settings)"
    and "isEnabled settings"
    and "resolveDestination w customerIP pc = (fx1, Inr destination)"
    and "shipDate = calculateShipDate rt (now w) (handlingTimeDays settings)
                      (cutoffTime settings)"
    and "carrierTransit rt w settings (buildOrigin settings) destination shipDate = (fx2, tr)"
    and "tr = None \<or> (\<exists>r. tr = Some r \<and> \<not> r_success r)"
    and "addBusinessDays shipDate
           (estimateTransitDays (Some (warehousePostalCode settings))
              (postalCode destination) + 2) = Date u"
  shows "(\<exists>fx est isoMin isoMax.
           getDeliveryEstimate rt w shop customerIP pc = (fx, Inr est) \<and>
           success est \<and> isFallback est = Some True \<and>
           transitDays est =
             Some (estimateTransitDays (Some (warehousePostalCode settings))
                     (postalCode destination)) \<and>
           toISOString rt (addBusinessDays shipDate
             (estimateTransitDays (Some (warehousePostalCode settings))
                (postalCode destination))) = Inr isoMin \<and>
           deliveryDateMin est = Some isoMin \<and>
           toISOString rt (addBusinessDays shipDate
             (estimateTransitDays (Some (warehousePostalCode settings))
                (postalCode destination) + 2)) = Inr isoMax \<and>
           deliveryDateMax est = Some isoMax) \<and>
         (\<not> (truthy (fedexApiKey settings) \<and> truthy (fedexSecretKey settings) \<and>
             truthy (fedexAccountNumber settings)) \<longrightarrow> tr = None) \<and>
         (oz \<noteq> [] \<and> dz \<noteq> [] \<and> parseInt (take 3 oz) = Some a \<and>
          parseInt (take 3 dz) = Some b \<and> abs (a - b) = 30 \<longrightarrow>
          estimateTransitDays (Some oz) (Some dz) = 2)"
proof (intro conjI)
  have pc: "addr_postalCode (buildOrigin settings) = Some (warehousePostalCode settings)"
    by (simp add: buildOrigin_def)
  have v: "addBusinessDays shipDate
             (estimateTransitDays (addr_postalCode (buildOrigin settings))
                (postalCode destination) + 2) = Date u"
    using assms(7) by (simp add: pc)
  obtain est isoMin isoMax where
    g: "generateFallbackEstimate rt (buildOrigin settings) destination shipDate settings = Inr est"
    and props: "success est" "isFallback est = Some True"
      "transitDays est =
         Some (estimateTransitDays (Some (warehousePostalCode settings)) (postalCode destination))"
      "toISOString rt (addBusinessDays shipDate
         (estimateTransitDays (Some (warehousePostalCode settings)) (postalCode destination)))
         = Inr isoMin"
      "deliveryDateMin est = Some isoMin"
      "toISOString rt (addBusinessDays shipDate
         (estimateTransitDays (Some (warehousePostalCode settings)) (postalCode destination) + 2))
         = Inr isoMax"
      "deliveryDateMax est = Some isoMax"
    using generateFallbackEstimate_valid[OF v, of rt settings]
    unfolding pc by blast
  have ct: "carrierTransit rt w settings (buildOrigin settings) destination
              (calculateShipDate rt (now w) (handlingTimeDays settings) (cutoffTime settings))
            = (fx2, tr)"
    using assms(4,5) by simp
  have g': "generateFallbackEstimate rt (buildOrigin settings) destination
              (calculateShipDate rt (now w) (handlingTimeDays settings) (cutoffTime settings))
              settings
            = Inr est"
    using g assms(4) by simp
  have "getDeliveryEstimate_try rt w shop customerIP pc =
          (ReadSettings shop # fx1 @ [ReadClock] @ fx2, Inr est)"
    using assms(1,2,3,6) ct g'
    unfolding getDeliveryEstimate_try_def Let_def
    by auto
  then have "getDeliveryEstimate rt w shop customerIP pc =
          (ReadSettings shop # fx1 @ [ReadClock] @ fx2, Inr est)"
    by (simp add: getDeliveryEstimate_def)
  with props show "\<exists>fx est isoMin isoMax.
           getDeliveryEstimate rt w shop customerIP pc = (fx, Inr est) \<and>
           success est \<and> isFallback est = Some True \<and>
           transitDays est =
             Some (estimateTransitDays (Some (warehousePostalCode settings))
                     (postalCode destination)) \<and>
           toISOString rt (addBusinessDays shipDate
             (estimateTransitDays (Some (warehousePostalCode settings))
                (postalCode destination))) = Inr isoMin \<and>
           deliveryDateMin est = Some isoMin \<and>
           toISOString rt (addBusinessDays shipDate
             (estimateTransitDays (Some (warehousePostalCode settings))
                (postalCode destination) + 2)) = Inr isoMax \<and>
           deliveryDateMax est = Some isoMax"
    by blast
next
  show "\<not> (truthy (fedexApiKey settings) \<and> truthy (fedexSecretKey settings) \<and>
            truthy (fedexAccountNumber settings)) \<longrightarrow> tr = None"
    using assms(5) by (auto simp: carrierTransit_def)
next
  show "oz \<noteq> [] \<and> dz \<noteq> [] \<and> parseInt (take 3 oz) = Some a \<and>
         parseInt (take 3 dz) = Some b \<and> abs (a - b) = 30 \<longrightarrow>
         estimateTransitDays (Some oz) (Some dz) = 2"
    using estimateTransitDays_numeric[of oz dz a b] by (simp add: zoneDays_def)
qed

lemma world0_estimate:
  "getDeliveryEstimate rt0 world0 ''shop.example'' None (Some ''32401'') =
     ([ReadSettings ''shop.example'', LookupPostalCode ''32401'', ReadClock],
      Inr \<lparr> success = True, error = None,
            deliveryDateMin = Some ''D+5T0'', deliveryDateMax = Some ''D+7T0'',
            displayText = Some ''Arrives 2-4 business days'', location = Some ''US'',
            transitDays = Some 2, isFallback = Some True \<rparr>)"
  by code_simp

lemma worldCreds_transit:
  "snd (carrierTransit rt0 worldCreds settingsCreds (buildOrigin settingsCreds) destination0
          (Date 86400000)) =
     Some (failureResponse (Some ''FedEx OAuth failed: denied'') (Some ''fedex''))"
  by code_simp

lemma worldCreds_estimate:
  "snd (getDeliveryEstimate rt0 worldCreds ''shop.example'' None (Some ''32401'')) =
      Inr \<lparr> success = True, error = None,
            deliveryDateMin = Some ''D+5T0'', deliveryDateMax = Some ''D+7T0'',
            displayText = Some ''Arrives 2-4 business days'', location = Some ''US'',
            transitDays = Some 2, isFallback = Some True \<rparr>"
  by code_simp

theorem fallback_when_carrier_unavailable_witness:
  "getAppSettings world0 ''shop.example'' = Inr (Some settings0) \<and> isEnabled settings0 \<and>
   resolveDestination world0 None (Some ''32401'') =
     ([LookupPostalCode ''32401''], Inr destination0) \<and>
   calculateShipDate rt0 (now world0) (handlingTimeDays settings0) (cutoffTime settings0) =
     Date 86400000 \<and>
   carrierTransit rt0 world0 settings0 (buildOrigin settings0) destination0 (Date 86400000) =
     ([], None) \<and>
   addBusinessDays (Date 86400000)
     (estimateTransitDays (Some (warehousePostalCode settings0)) (postalCode destination0) + 2) =
     Date 604800000 \<and>
   parseInt (take 3 ''29483'') = Some 294 \<and> parseInt (take 3 ''32401'') = Some 324 \<and>
   abs ((294::int) - 324) = 30 \<and>
   (\<exists>fx est. getDeliveryEstimate rt0 world0 ''shop.example'' None (Some ''32401'') =
        (fx, Inr est) \<and>
      success est \<and> isFallback est = Some True \<and> transitDays est = Some 2 \<and>
      deliveryDateMin est = Some ''D+5T0'' \<and>
      deliveryDateMax est = Some ''D+7T0'') \<and>
   (\<exists>fx r. carrierTransit rt0 worldCreds settingsCreds (buildOrigin settingsCreds)
        destination0 (Date 86400000) = (fx, Some r) \<and> \<not> r_success r) \<and>
   (\<exists>fx est. getDeliveryEstimate rt0 worldCreds ''shop.example'' None (Some ''32401'') =
        (fx, Inr est) \<and>
      success est \<and> isFallback est = Some True \<and> transitDays est = Some 2 \<and>
      deliveryDateMin est = Some ''D+5T0'' \<and> deliveryDateMax est = Some ''D+7T0'')"
proof -
  have h1: "getAppSettings world0 ''shop.example'' = Inr (Some settings0)"
    by (simp add: world0_def)
  have h2: "isEnabled settings0"
    by (simp add: settings0_def)
  have h3: "resolveDestination world0 None (Some ''32401'') =
              ([LookupPostalCode ''32401''], Inr destination0)"
    by (simp add: resolveDestination_def world0_def destination0_def)
  have h4: "Date 86400000 =
              calculateShipDate rt0 (now world0) (handlingTimeDays settings0)
                (cutoffTime settings0)"
    by code_simp
  have h5: "carrierTransit rt0 world0 settings0 (buildOrigin settings0) destination0
              (Date 86400000) = ([], None)"
    by (simp add: carrierTransit_def settings0_def)
  have h6: "(None :: transitTimeResponse option) = None \<or>
            (\<exists>r. (None :: transitTimeResponse option) = Some r \<and> \<not> r_success r)"
    by simp
  have h7: "addBusinessDays (Date 86400000)
              (estimateTransitDays (Some (warehousePostalCode settings0))
                 (postalCode destination0) + 2) = Date 604800000"
    by code_simp
  have p1: "parseInt (take 3 ''29483'') = Some 294"
    by code_simp
  have p2: "parseInt (take 3 ''32401'') = Some 324"
    by code_simp
  have first: "\<exists>fx est. getDeliveryEstimate rt0 world0 ''shop.example'' None (Some ''32401'') =
        (fx, Inr est) \<and>
      success est \<and> isFallback est = Some True \<and> transitDays est = Some 2 \<and>
      deliveryDateMin est = Some ''D+5T0'' \<and>
      deliveryDateMax est = Some ''D+7T0''"
    using fallback_when_carrier_unavailable[OF h1 h2 h3 h4 h5 h6 h7,
            of "''29483''" "''32401''" 294 324]
          world0_estimate
    by auto
  have g1: "getAppSettings worldCreds ''shop.example'' = Inr (Some settingsCreds)"
    by (simp add: worldCreds_def)
  have g2: "isEnabled settingsCreds"
    by (simp add: settingsCreds_def settings0_def)
  have g3: "resolveDestination worldCreds None (Some ''32401'') =
              ([LookupPostalCode ''32401''], Inr destination0)"
    by (simp add: resolveDestination_def worldCreds_def world0_def destination0_def)
  have g4: "Date 86400000 =
              calculateShipDate rt0 (now worldCreds) (handlingTimeDays settingsCreds)
                (cutoffTime settingsCreds)"
    by code_simp
  obtain fx2 where g5:
    "carrierTransit rt0 worldCreds settingsCreds (buildOrigin settingsCreds) destination0
       (Date 86400000) =
     (fx2, Some (failureResponse (Some ''FedEx OAuth failed: denied'') (Some ''fedex'')))"
    using worldCreds_transit
    by (cases "carrierTransit rt0 worldCreds settingsCreds (buildOrigin settingsCreds)
                 destination0 (Date 86400000)") auto
  have g6: "Some (failureResponse (Some ''FedEx OAuth failed: denied'') (Some ''fedex'')) = None \<or>
            (\<exists>r. Some (failureResponse (Some ''FedEx OAuth failed: denied'') (Some ''fedex''))
                   = Some r \<and> \<not> r_success r)"
    by (simp add: failureResponse_def)
  have g7: "addBusinessDays (Date 86400000)
              (estimateTransitDays (Some (warehousePostalCode settingsCreds))
                 (postalCode destination0) + 2) = Date 604800000"
    by code_simp
  obtain fx est where e:
    "getDeliveryEstimate rt0 worldCreds ''shop.example'' None (Some ''32401'') = (fx, Inr est)"
    "success est" "isFallback est = Some True"
    using fallback_when_carrier_unavailable[OF g1 g2 g3 g4 g5 g6 g7] by blast
  have second: "(\<exists>fx r. carrierTransit rt0 worldCreds settingsCreds (buildOrigin settingsCreds)
        destination0 (Date 86400000) = (fx, Some r) \<and> \<not> r_success r) \<and>
   (\<exists>fx est. getDeliveryEstimate rt0 worldCreds ''shop.example'' None (Some ''32401'') =
        (fx, Inr est) \<and>
      success est \<and> isFallback est = Some True \<and> transitDays est = Some 2 \<and>
      deliveryDateMin est = Some ''D+5T0'' \<and> deliveryDateMax est = Some ''D+7T0'')"
    using e g5 worldCreds_estimate by (auto simp: failureResponse_def)
  show ?thesis
    using first second h1 h2 h3 h4[symmetric] h5 h7 p1 p2 by simp
qed

lemma huge_parts: "map (numberToInteger rt0) (split_colon ''14:00'') = [Some 14, Some 0]"
  by code_simp

lemma huge_shipDate: "calculateShipDate rt0 1700000000000 100000000 ''14:00'' = InvalidDate"
proof -
  have start: "(if date_ge (Date 1700000000000) (setHours (Date 1700000000000) (Some 14) (Some 0))
                then setDateNext (Date 1700000000000) else Date 1700000000000) =
               Date 1700086400000"
    by (simp add: msPerDay_def timeClip_def maxTime_def)
  have "addBusinessDays_loop (Date 1700086400000) 0 100000000 = InvalidDate"
    by (rule loop_out_of_range) (simp_all add: msPerDay_def maxTime_def)
  then show ?thesis
    unfolding calculateShipDate_def Let_def huge_parts
    by (simp add: start handling_loop_eq weekend_loop_invalid del: setHours.simps date_ge.simps
          setDateNext.simps)
qed

lemma huge_zone: "estimateTransitDays (Some ''29483'') (Some ''32401'') = 2"
  by code_simp

lemma huge_text: "formatTransitDays (Some 2) = ''2-4 business days''"
  by code_simp

text \<open>
  C5, as the specification words it, fails. With a hundred million handling days the
  handling loop leaves the range of time values, the ship date is an Invalid Date,
  the fallback cannot render its dates, and the run ends in the failure result
  although the carrier result is absent.
\<close>

theorem fallback_huge_handling_counterexample:
  "getAppSettings worldHuge ''shop.example'' = Inr (Some settingsHuge) \<and>
   isEnabled settingsHuge \<and> handlingTimeDays settingsHuge = 100000000 \<and>
   calculateShipDate rt0 (now worldHuge) (handlingTimeDays settingsHuge)
     (cutoffTime settingsHuge) = InvalidDate \<and>
   carrierTransit rt0 worldHuge settingsHuge (buildOrigin settingsHuge) destination0
     InvalidDate = ([], None) \<and>
   getDeliveryEstimate rt0 worldHuge ''shop.example'' None (Some ''32401'') =
     ([ReadSettings ''shop.example'', LookupPostalCode ''32401'', ReadClock],
      Inr \<lparr> success = False, error = Some ''Failed to calculate delivery estimate'',
            deliveryDateMin = None, deliveryDateMax = None, displayText = None,
            location = None, transitDays = None, isFallback = None \<rparr>)"
  by (simp add: getDeliveryEstimate_def getDeliveryEstimate_try_def worldHuge_def world0_def
        settingsHuge_def settings0_def resolveDestination_def carrierTransit_def
        buildOrigin_def generateFallbackEstimate_def failureEstimate_def destination0_def
        huge_shipDate huge_zone huge_text addBusinessDays_invalid
        del: formatTransitDays.simps)

text \<open>
  C2. A shop without a settings record gets the failure
  \<open>App not configured for this shop\<close>, a shop whose settings have \<open>isEnabled\<close> false
  gets \<open>Delivery estimates are disabled\<close>; the result has no other field, and the
  only outside call of the run is the settings read.
\<close>

theorem unconfigured_or_disabled:
  "(getAppSettings w shop = Inr None \<longrightarrow>
      getDeliveryEstimate rt w shop customerIP pc =
        ([ReadSettings shop],
         Inr \<lparr> success = False, error = Some ''App not configured for this shop'',
               deliveryDateMin = None, deliveryDateMax = None, displayText = None,
               location = None, transitDays = None, isFallback = None \<rparr>)) \<and>
   (getAppSettings w shop = Inr (Some settings) \<and> \<not> isEnabled settings \<longrightarrow>
      getDeliveryEstimate rt w shop customerIP pc =
        ([ReadSettings shop],
         Inr \<lparr> success = False, error = Some ''Delivery estimates are disabled'',
               deliveryDateMin = None, deliveryDateMax = None, displayText = None,
               location = None, transitDays = None, isFallback = None \<rparr>))"
  by (simp add: getDeliveryEstimate_def getDeliveryEstimate_try_def failureEstimate_def)

theorem unconfigured_or_disabled_witness:
  "getAppSettings world0 ''unknown.example'' = Inr None \<and>
   getDeliveryEstimate rt0 world0 ''unknown.example'' (Some ''8.8.8.8'') (Some ''32401'') =
     ([ReadSettings ''unknown.example''],
      Inr \<lparr> success = False, error = Some ''App not configured for this shop'',
            deliveryDateMin = None, deliveryDateMax = None, displayText = None,
            location = None, transitDays = None, isFallback = None \<rparr>) \<and>
   getAppSettings world0 ''off.example'' = Inr (Some (settings0\<lparr> isEnabled := False \<rparr>)) \<and>
   \<not> isEnabled (settings0\<lparr> isEnabled := False \<rparr>) \<and>
   getDeliveryEstimate rt0 world0 ''off.example'' (Some ''8.8.8.8'') (Some ''32401'') =
     ([ReadSettings ''off.example''],
      Inr \<lparr> success = False, error = Some ''Delivery estimates are disabled'',
            deliveryDateMin = None, deliveryDateMax = None, displayText = None,
            location = None, transitDays = None, isFallback = None \<rparr>)"
proof -
  have a: "getAppSettings world0 ''unknown.example'' = Inr None"
    by (simp add: world0_def)
  have b: "getAppSettings world0 ''off.example'' = Inr (Some (settings0\<lparr> isEnabled := False \<rparr>))"
    by (simp add: world0_def)
  show ?thesis
    using unconfigured_or_disabled[of world0 "''unknown.example''" rt0 "Some ''8.8.8.8''"
            "Some ''32401''" settings0]
          unconfigured_or_disabled[of world0 "''off.example''" rt0 "Some ''8.8.8.8''"
            "Some ''32401''" "settings0\<lparr> isEnabled := False \<rparr>"]
          a b
    by simp
qed

text \<open>
  C1, as the code has it. \<open>getDeliveryEstimate\<close> never throws: for every input and
  every behaviour of its collaborators it returns an estimate, and an exception
  raised anywhere in its body becomes the failure whose error is
  \<open>Failed to calculate delivery estimate\<close>, with a capital F.
\<close>

theorem getDeliveryEstimate_never_throws:
  "(\<exists>fx est. getDeliveryEstimate rt w shop customerIP pc = (fx, Inr est)) \<and>
   (\<forall>fx e. getDeliveryEstimate_try rt w shop customerIP pc = (fx, Inl e) \<longrightarrow>
      getDeliveryEstimate rt w shop customerIP pc =
        (fx, Inr \<lparr> success = False, error = Some ''Failed to calculate delivery estimate'',
                   deliveryDateMin = None, deliveryDateMax = None, displayText = None,
                   location = None, transitDays = None, isFallback = None \<rparr>))"
proof (cases "getDeliveryEstimate_try rt w shop customerIP pc")
  case (Pair fx outcome)
  then show ?thesis
    by (cases outcome) (simp_all add: getDeliveryEstimate_def failureEstimate_def)
qed

lemma worldDown_try:
  "getDeliveryEstimate_try rt0 worldDown ''shop.example'' None None =
     ([ReadSettings ''shop.example''], Inl (Error ''database unavailable''))"
  by code_simp

lemma worldDated_try:
  "snd (getDeliveryEstimate_try rt0 worldDated ''shop.example'' None None) =
     Inl (RangeError ''Invalid time value'')"
  by code_simp

theorem getDeliveryEstimate_never_throws_witness:
  "getDeliveryEstimate_try rt0 worldDown ''shop.example'' None None =
     ([ReadSettings ''shop.example''], Inl (Error ''database unavailable'')) \<and>
   getDeliveryEstimate rt0 worldDown ''shop.example'' None None =
     ([ReadSettings ''shop.example''],
      Inr \<lparr> success = False, error = Some ''Failed to calculate delivery estimate'',
            deliveryDateMin = None, deliveryDateMax = None, displayText = None,
            location = None, transitDays = None, isFallback = None \<rparr>) \<and>
   snd (getDeliveryEstimate_try rt0 worldDated ''shop.example'' None None) =
     Inl (RangeError ''Invalid time value'') \<and>
   snd (getDeliveryEstimate rt0 worldDated ''shop.example'' None None) =
     Inr \<lparr> success = False, error = Some ''Failed to calculate delivery estimate'',
           deliveryDateMin = None, deliveryDateMax = None, displayText = None,
           location = None, transitDays = None, isFallback = None \<rparr>"
proof -
  obtain fx where fx: "getDeliveryEstimate_try rt0 worldDated ''shop.example'' None None =
                         (fx, Inl (RangeError ''Invalid time value''))"
    using worldDated_try by (cases "getDeliveryEstimate_try rt0 worldDated ''shop.example'' None None") auto
  show ?thesis
    using getDeliveryEstimate_never_throws[of rt0 worldDown "''shop.example''" None None]
          getDeliveryEstimate_never_throws[of rt0 worldDated "''shop.example''" None None]
          worldDown_try fx
    by simp
qed

text \<open>
  C1, as the specification words it, fails: with the settings store down the error string
  returned is not the lower-case \<open>failed to calculate delivery estimate\<close>.
\<close>

theorem getDeliveryEstimate_error_text_counterexample:
  "getDeliveryEstimate_try rt0 worldDown ''shop.example'' None None =
     ([ReadSettings ''shop.example''], Inl (Error ''database unavailable'')) \<and>
   \<not> (snd (getDeliveryEstimate rt0 worldDown ''shop.example'' None None) =
        Inr \<lparr> success = False, error = Some ''failed to calculate delivery estimate'',
              deliveryDateMin = None, deliveryDateMax = None, displayText = None,
              location = None, transitDays = None, isFallback = None \<rparr>)"
  by code_simp

section \<open>Properties of the ship date\<close>

lemma resolveDestination_settings:
  "resolveDestination (w\<lparr> getAppSettings := f \<rparr>) customerIP pc =
   resolveDestination w customerIP pc"
  by (simp add: resolveDestination_def split: option.splits sum.splits)

lemma buildOrigin_processingDays:
  "buildOrigin (settings\<lparr> processingDays := p \<rparr>) = buildOrigin settings"
  by (simp add: buildOrigin_def)

lemma carrierTransit_processingDays:
  "carrierTransit rt (w\<lparr> getAppSettings := f \<rparr>) (settings\<lparr> processingDays := p \<rparr>)
     origin destination shipDate =
   carrierTransit rt (w\<lparr> getAppSettings := g \<rparr>) settings origin destination shipDate"
  by (simp add: carrierTransit_def createCarrier_def Let_def split: sum.splits)

lemma generateFallbackEstimate_processingDays:
  "generateFallbackEstimate rt origin destination shipDate (settings\<lparr> processingDays := p \<rparr>) =
   generateFallbackEstimate rt origin destination shipDate settings"
  by (simp add: generateFallbackEstimate_def)

lemma formatCarrierEstimate_processingDays:
  "formatCarrierEstimate rt (settings\<lparr> processingDays := p \<rparr>) destination tr =
   formatCarrierEstimate rt settings destination tr"
  by (simp add: formatCarrierEstimate_def)

lemma estimate_ignores_processingDays:
  "getDeliveryEstimate rt
     (w\<lparr> getAppSettings := (\<lambda>s. Inr (Some (settings\<lparr> processingDays := p \<rparr>))) \<rparr>)
     shop customerIP pc =
   getDeliveryEstimate rt (w\<lparr> getAppSettings := (\<lambda>s. Inr (Some settings)) \<rparr>)
     shop customerIP pc"
proof -
  have "getDeliveryEstimate_try rt
     (w\<lparr> getAppSettings := (\<lambda>s. Inr (Some (settings\<lparr> processingDays := p \<rparr>))) \<rparr>)
     shop customerIP pc =
   getDeliveryEstimate_try rt (w\<lparr> getAppSettings := (\<lambda>s. Inr (Some settings)) \<rparr>)
     shop customerIP pc"
    unfolding getDeliveryEstimate_try_def
    by (simp add: resolveDestination_settings buildOrigin_processingDays
          generateFallbackEstimate_processingDays formatCarrierEstimate_processingDays
          carrierTransit_processingDays[where g = "\<lambda>s. Inr (Some settings)"] Let_def
          split: prod.splits sum.splits option.splits)
  then show ?thesis
    by (simp add: getDeliveryEstimate_def)
qed

lemma sat_shipDate:
  "calculateShipDate rt0 (now worldSat) (handlingTimeDays settingsSat) (cutoffTime settingsSat) =
     Date 86400000"
  by code_simp

text \<open>
  C3. The settings page stores the processing days in the record the service loads,
  and \<open>calculateShipDate\<close> never reads them: the estimate is the same whatever they
  are. With Saturday as the only processing day, one handling day and a request on
  Thursday 1970-01-01 at 00:00, before the 14:00 cutoff, the ship date is Friday
  1970-01-02, a day that is not a processing day.
\<close>

theorem calculateShipDate_ignores_processingDays:
  "getDeliveryEstimate rt
     (w\<lparr> getAppSettings := (\<lambda>s. Inr (Some (settings\<lparr> processingDays := p \<rparr>))) \<rparr>)
     shop customerIP pc =
   getDeliveryEstimate rt (w\<lparr> getAppSettings := (\<lambda>s. Inr (Some settings)) \<rparr>)
     shop customerIP pc \<and>
   processingDays settingsSat = ''6'' \<and>
   storedProcessingDays (processingDays settingsSat) = [6] \<and>
   handlingTimeDays settingsSat = 1 \<and> cutoffTime settingsSat = ''14:00'' \<and>
   now worldSat = 0 \<and> weekDay (now worldSat) = 4 \<and>
   calculateShipDate rt0 (now worldSat) (handlingTimeDays settingsSat)
     (cutoffTime settingsSat) = Date 86400000 \<and>
   weekDay 86400000 = 5 \<and>
   weekDay 86400000 \<notin> set (storedProcessingDays (processingDays settingsSat)) \<and>
   getDeliveryEstimate rt0 worldSat ''shop.example'' None (Some ''32401'') =
     getDeliveryEstimate rt0 world0 ''shop.example'' None (Some ''32401'')"
proof -
  have days: "storedProcessingDays (processingDays settingsSat) = [6]"
    by code_simp
  have wd: "weekDay 0 = 4" "weekDay 86400000 = 5"
    by (simp_all add: weekDay_def msPerDay_def)
  have nw: "now worldSat = 0"
    by (simp add: worldSat_def world0_def)
  have same: "getDeliveryEstimate rt0 worldSat ''shop.example'' None (Some ''32401'') =
     getDeliveryEstimate rt0 world0 ''shop.example'' None (Some ''32401'')"
    by code_simp
  show ?thesis
    using days wd nw sat_shipDate same
    by (simp add: estimate_ignores_processingDays settingsSat_def settings0_def)
qed

end
